theory Spec2Isabelle
  imports Complex_Main "HOL-Library.Multiset"
begin

section \<open>Floating-point values\<close>

text \<open>
  The notebook computes on float64 values held in pandas frames. A value is modelled as
  a real number or one of the three special values that pandas and numpy produce instead
  of raising: a division by zero gives an infinity or NaN, the statistics of too short a
  column give NaN. Rounding error, overflow and the sign of zero are not modelled: finite
  arithmetic is exact.
\<close>

datatype fl = Fin real | PInf | NInf | NaN

fun fneg :: "fl \<Rightarrow> fl" where
  "fneg (Fin a) = Fin (- a)"
| "fneg PInf = NInf"
| "fneg NInf = PInf"
| "fneg NaN = NaN"

fun fadd :: "fl \<Rightarrow> fl \<Rightarrow> fl" where
  "fadd (Fin a) (Fin b) = Fin (a + b)"
| "fadd NaN _ = NaN"
| "fadd _ NaN = NaN"
| "fadd PInf NInf = NaN"
| "fadd NInf PInf = NaN"
| "fadd PInf _ = PInf"
| "fadd _ PInf = PInf"
| "fadd NInf _ = NInf"
| "fadd _ NInf = NInf"

definition fsub :: "fl \<Rightarrow> fl \<Rightarrow> fl" where
  "fsub a b = fadd a (fneg b)"

fun fmul :: "fl \<Rightarrow> fl \<Rightarrow> fl" where
  "fmul (Fin a) (Fin b) = Fin (a * b)"
| "fmul NaN _ = NaN"
| "fmul _ NaN = NaN"
| "fmul PInf (Fin b) = (if b = 0 then NaN else if 0 < b then PInf else NInf)"
| "fmul NInf (Fin b) = (if b = 0 then NaN else if 0 < b then NInf else PInf)"
| "fmul (Fin a) PInf = (if a = 0 then NaN else if 0 < a then PInf else NInf)"
| "fmul (Fin a) NInf = (if a = 0 then NaN else if 0 < a then NInf else PInf)"
| "fmul PInf PInf = PInf"
| "fmul NInf NInf = PInf"
| "fmul PInf NInf = NInf"
| "fmul NInf PInf = NInf"

text \<open>
  Float division never raises in numpy: a nonzero value over zero is an infinity,
  zero over zero is NaN.
\<close>

fun fdiv :: "fl \<Rightarrow> fl \<Rightarrow> fl" where
  "fdiv (Fin a) (Fin b) =
     (if b = 0 then (if a = 0 then NaN else if 0 < a then PInf else NInf)
      else Fin (a / b))"
| "fdiv NaN _ = NaN"
| "fdiv _ NaN = NaN"
| "fdiv (Fin a) PInf = Fin 0"
| "fdiv (Fin a) NInf = Fin 0"
| "fdiv PInf (Fin b) = (if 0 \<le> b then PInf else NInf)"
| "fdiv NInf (Fin b) = (if 0 \<le> b then NInf else PInf)"
| "fdiv PInf PInf = NaN"
| "fdiv PInf NInf = NaN"
| "fdiv NInf PInf = NaN"
| "fdiv NInf NInf = NaN"

text \<open>Power with a literal integer exponent (\<^verbatim>\<open>x ** 252\<close>, \<^verbatim>\<open>x ** 2\<close>).\<close>

fun fpow :: "fl \<Rightarrow> nat \<Rightarrow> fl" where
  "fpow (Fin a) n = Fin (a ^ n)"
| "fpow PInf n = (if n = 0 then Fin 1 else PInf)"
| "fpow NInf n = (if n = 0 then Fin 1 else if even n then PInf else NInf)"
| "fpow NaN n = (if n = 0 then Fin 1 else NaN)"

fun fsqrt :: "fl \<Rightarrow> fl" where
  "fsqrt (Fin a) = (if 0 \<le> a then Fin (sqrt a) else NaN)"
| "fsqrt PInf = PInf"
| "fsqrt NInf = NaN"
| "fsqrt NaN = NaN"

text \<open>The comparisons of IEEE floats: every comparison with NaN is false.\<close>

fun fle :: "fl \<Rightarrow> fl \<Rightarrow> bool" where
  "fle NaN _ = False"
| "fle _ NaN = False"
| "fle (Fin a) (Fin b) = (a \<le> b)"
| "fle NInf _ = True"
| "fle _ PInf = True"
| "fle PInf _ = False"
| "fle _ NInf = False"

definition flt :: "fl \<Rightarrow> fl \<Rightarrow> bool" where
  "flt a b = (fle a b \<and> a \<noteq> b)"

definition isna :: "fl \<Rightarrow> bool" where
  "isna x = (x = NaN)"

definition fsum :: "fl list \<Rightarrow> fl" where
  "fsum xs = foldl fadd (Fin 0) xs"

section \<open>Frames and column statistics\<close>

text \<open>
  A frame is a date index and labelled columns, every column as long as the index and
  the labels distinct, as pandas keeps them. Dates are timestamps.
\<close>

record 'v frame =
  index :: "int list"
  columns :: "(string \<times> 'v list) list"

definition wf_frame :: "'v frame \<Rightarrow> bool" where
  "wf_frame f = (list_all (\<lambda>c. length (snd c) = length (index f)) (columns f)
                 \<and> distinct (map fst (columns f)))"

text \<open>
  \<^verbatim>\<open>Series.mean()\<close> and \<^verbatim>\<open>Series.std()\<close> (ddof = 1) skip NaN entries. The mean of no
  entries is NaN; the standard deviation of fewer than two entries is NaN.
\<close>

definition mean :: "fl list \<Rightarrow> fl" where
  "mean xs =
     (let vs = filter (\<lambda>v. \<not> isna v) xs
      in if vs = [] then NaN else fdiv (fsum vs) (Fin (real (length vs))))"

definition std :: "fl list \<Rightarrow> fl" where
  "std xs =
     (let vs = filter (\<lambda>v. \<not> isna v) xs; n = length vs
      in if n \<le> 1 then NaN
         else let avg = fdiv (fsum vs) (Fin (real n));
                  sqr = map (\<lambda>v. fpow (fsub avg v) 2) vs
              in fsqrt (fdiv (fsum sqr) (Fin (real (n - 1)))))"

text \<open>
  \<^verbatim>\<open>pct_change()\<close> with its defaults, as in pandas 2 (the release whose warnings the
  notebook's saved output carries): a missing entry is first filled with the last entry
  before it that is not missing, entries before the first quote staying missing; then
  every entry is divided by the one before it and 1 is subtracted. The first entry has
  no predecessor and becomes NaN.
\<close>

fun pad_from :: "fl \<Rightarrow> fl list \<Rightarrow> fl list" where
  "pad_from prev [] = []"
| "pad_from prev (x # xs) = (if isna x then prev # pad_from prev xs else x # pad_from x xs)"

definition ffill :: "fl list \<Rightarrow> fl list" where
  "ffill xs = pad_from NaN xs"

definition shift1 :: "fl list \<Rightarrow> fl list" where
  "shift1 xs = (if xs = [] then [] else NaN # butlast xs)"

definition pct_change_col :: "fl list \<Rightarrow> fl list" where
  "pct_change_col xs =
     (let data = ffill xs
      in map2 (\<lambda>p q. fsub (fdiv p q) (Fin 1)) data (shift1 data))"

definition pct_change :: "fl frame \<Rightarrow> fl frame" where
  "pct_change f =
     \<lparr>index = index f,
      columns = map (\<lambda>(t, c). (t, pct_change_col c)) (columns f)\<rparr>"

text \<open>\<^verbatim>\<open>dropna()\<close> removes every row in which some column holds NaN.\<close>

definition row_has_na :: "(string \<times> fl list) list \<Rightarrow> nat \<Rightarrow> bool" where
  "row_has_na cols i = list_ex (\<lambda>c. isna (snd c ! i)) cols"

definition kept_rows :: "fl frame \<Rightarrow> nat list" where
  "kept_rows f = filter (\<lambda>i. \<not> row_has_na (columns f) i) [0..<length (index f)]"

definition dropna :: "fl frame \<Rightarrow> fl frame" where
  "dropna f =
     \<lparr>index = map (\<lambda>i. index f ! i) (kept_rows f),
      columns = map (\<lambda>(t, c). (t, map (\<lambda>i. c ! i) (kept_rows f))) (columns f)\<rparr>"

section \<open>The Sharpe ratio function\<close>

text \<open>
  What the modelled calls raise are instances of Python's class \<^verbatim>\<open>Exception\<close>: a
  \<^verbatim>\<open>KeyError\<close> with the missing key, an \<^verbatim>\<open>IndexError\<close> with its message, and, as
  \<open>ProviderError\<close>, whatever else the download raises, with its text. Interrupts of the
  interpreter (\<^verbatim>\<open>KeyboardInterrupt\<close>, \<^verbatim>\<open>SystemExit\<close>) are not raised by these calls and are
  not modelled.
\<close>

datatype py_exception =
    KeyError string
  | IndexError string
  | ProviderError string

text \<open>
  The frame that \<^verbatim>\<open>yf.download\<close> returns for a list of tickers has a two-level column
  index: a price field (\<^verbatim>\<open>Adj Close\<close>, \<^verbatim>\<open>Close\<close>, ...) and under it one column per ticker.
\<close>

record dataframe =
  df_index :: "int list"
  df_fields :: "(string \<times> (string \<times> fl list) list) list"

definition getitem :: "dataframe \<Rightarrow> string \<Rightarrow> py_exception + fl frame" where
  "getitem df key =
     (case map_of (df_fields df) key of
        None \<Rightarrow> Inl (KeyError key)
      | Some t \<Rightarrow> Inr \<lparr>index = df_index df, columns = t\<rparr>)"

record metrics =
  Annual_Return :: fl
  Annual_Volatility :: fl
  Excess_Return :: fl
  Sharpe_Ratio :: fl
  Annual_Return_Pct :: fl
  Annual_Volatility_Pct :: fl
  Excess_Return_Pct :: fl

type_synonym results = "(string \<times> metrics) list"

definition trading_days :: nat where
  "trading_days = 252"

definition daily_returns :: "fl frame \<Rightarrow> fl frame" where
  "daily_returns adj_close = dropna (pct_change adj_close)"

definition annual_returns :: "fl list \<Rightarrow> fl" where
  "annual_returns rs = fsub (fpow (fadd (Fin 1) (mean rs)) trading_days) (Fin 1)"

definition annual_volatility :: "fl list \<Rightarrow> fl" where
  "annual_volatility rs = fmul (std rs) (Fin (sqrt (real trading_days)))"

definition excess_returns :: "fl list \<Rightarrow> fl \<Rightarrow> fl" where
  "excess_returns rs risk_free_rate = fsub (annual_returns rs) risk_free_rate"

definition sharpe_ratios :: "fl list \<Rightarrow> fl \<Rightarrow> fl" where
  "sharpe_ratios rs risk_free_rate =
     fdiv (excess_returns rs risk_free_rate) (annual_volatility rs)"

text \<open>
  The pandas expressions act on all ticker columns at once; \<open>result_row\<close> is what they
  compute for one ticker, the row of the result frame labelled with it.
\<close>

definition result_row :: "fl list \<Rightarrow> fl \<Rightarrow> metrics" where
  "result_row rs risk_free_rate =
     \<lparr>Annual_Return = annual_returns rs,
      Annual_Volatility = annual_volatility rs,
      Excess_Return = excess_returns rs risk_free_rate,
      Sharpe_Ratio = sharpe_ratios rs risk_free_rate,
      Annual_Return_Pct = fmul (annual_returns rs) (Fin 100),
      Annual_Volatility_Pct = fmul (annual_volatility rs) (Fin 100),
      Excess_Return_Pct = fmul (excess_returns rs risk_free_rate) (Fin 100)\<rparr>"

definition calculate_sharpe_ratio :: "dataframe \<Rightarrow> fl \<Rightarrow> py_exception + results" where
  "calculate_sharpe_ratio df risk_free_rate =
     (case getitem df ''Adj Close'' of
        Inl e \<Rightarrow> Inl e
      | Inr adj_close \<Rightarrow>
          Inr (map (\<lambda>(t, rs). (t, result_row rs risk_free_rate))
                 (columns (daily_returns adj_close))))"

section \<open>Sorting and rounding a result frame\<close>

text \<open>
  \<^verbatim>\<open>sort_values(col, ascending=False)\<close>: rows in descending order of the key column, rows
  whose key is NaN last whatever the direction. Rows with equal keys keep their order
  (numpy's sort of so few rows is an insertion sort); no property below depends on it.
\<close>

fun insert_desc :: "('a \<Rightarrow> fl) \<Rightarrow> 'a \<Rightarrow> 'a list \<Rightarrow> 'a list" where
  "insert_desc key r [] = [r]"
| "insert_desc key r (x # xs) =
     (if fle (key x) (key r) then r # x # xs else x # insert_desc key r xs)"

definition sort_values :: "('a \<Rightarrow> fl) \<Rightarrow> 'a list \<Rightarrow> 'a list" where
  "sort_values key rows =
     foldr (insert_desc key) (filter (\<lambda>r. \<not> isna (key r)) rows) []
     @ filter (\<lambda>r. isna (key r)) rows"

definition sharpe_of :: "string \<times> metrics \<Rightarrow> fl" where
  "sharpe_of row = Sharpe_Ratio (snd row)"

text \<open>
  \<^verbatim>\<open>round(4)\<close> is numpy's: scale by \<open>10 ^ 4\<close>, round to the nearest integer with halves
  to the even one, scale back. Infinities and NaN are left as they are. The two scalings
  are exact here and round in float64, so what is proved of a rounded entry is stated
  with a margin and for entries of moderate size.
\<close>

definition rint :: "real \<Rightarrow> int" where
  "rint x =
     (let f = \<lfloor>x\<rfloor>; d = x - of_int f
      in if d < 1 / 2 then f else if 1 / 2 < d then f + 1
         else if even f then f else f + 1)"

fun fround :: "nat \<Rightarrow> fl \<Rightarrow> fl" where
  "fround d (Fin x) = Fin (of_int (rint (x * 10 ^ d)) / 10 ^ d)"
| "fround d PInf = PInf"
| "fround d NInf = NInf"
| "fround d NaN = NaN"

definition round_metrics :: "nat \<Rightarrow> metrics \<Rightarrow> metrics" where
  "round_metrics d m =
     \<lparr>Annual_Return = fround d (Annual_Return m),
      Annual_Volatility = fround d (Annual_Volatility m),
      Excess_Return = fround d (Excess_Return m),
      Sharpe_Ratio = fround d (Sharpe_Ratio m),
      Annual_Return_Pct = fround d (Annual_Return_Pct m),
      Annual_Volatility_Pct = fround d (Annual_Volatility_Pct m),
      Excess_Return_Pct = fround d (Excess_Return_Pct m)\<rparr>"

definition round_results :: "nat \<Rightarrow> results \<Rightarrow> results" where
  "round_results d res = map (\<lambda>(t, m). (t, round_metrics d m)) res"

section \<open>The notebook as a program with effects\<close>

text \<open>
  What a run does to the world is a list of events, in order: a query sent to the data
  provider, a line printed, a file written. A formatted field of an f-string is kept as
  the value and its format, not as digits. A query is \<^verbatim>\<open>yf.download\<close> with \<^verbatim>\<open>start\<close>, \<^verbatim>\<open>end\<close>
  and \<^verbatim>\<open>auto_adjust\<close>, or with \<^verbatim>\<open>period\<close> and \<^verbatim>\<open>interval\<close>. Times are counted in microseconds,
  the resolution of \<^verbatim>\<open>datetime\<close>.
\<close>

datatype piece = Lit string | Field fl string

datatype request =
    History "string list" int int bool
  | Period string string string

datatype event =
    Download request
  | Print "piece list"
  | Print_frame "string list" "(string \<times> fl list) list"
  | To_csv string results

text \<open>
  The world a run meets: the clock, and what the provider answers to a query for a
  window of history and to a query for a period, a frame or an exception.
\<close>

record env =
  now :: int
  yf_history :: "string list \<Rightarrow> int \<Rightarrow> int \<Rightarrow> py_exception + dataframe"
  yf_period :: "string \<Rightarrow> string \<Rightarrow> string \<Rightarrow> py_exception + (string \<times> fl list) list"

text \<open>
  A piece of the program yields the events it caused and either a value or the exception
  that ended it; \<open>bind\<close> runs the next piece only after a value.
\<close>

type_synonym 'a run = "event list \<times> (py_exception + 'a)"

definition ret :: "'a \<Rightarrow> 'a run" where
  "ret x = ([], Inr x)"

definition raise :: "py_exception \<Rightarrow> 'a run" where
  "raise e = ([], Inl e)"

definition emit :: "event \<Rightarrow> unit run" where
  "emit e = ([e], Inr ())"

definition bind :: "'a run \<Rightarrow> ('a \<Rightarrow> 'b run) \<Rightarrow> 'b run" where
  "bind m f =
     (case m of
        (es, Inl e) \<Rightarrow> (es, Inl e)
      | (es, Inr x) \<Rightarrow> (case f x of (es', r) \<Rightarrow> (es @ es', r)))"

definition lift :: "py_exception + 'a \<Rightarrow> 'a run" where
  "lift r = ([], r)"

fun str :: "py_exception \<Rightarrow> string" where
  "str (KeyError k) = [CHR 0x27] @ k @ [CHR 0x27]"
| "str (IndexError m) = m"
| "str (ProviderError m) = m"

definition download_history :: "env \<Rightarrow> string list \<Rightarrow> int \<Rightarrow> int \<Rightarrow> dataframe run" where
  "download_history w tickers start_t end_t =
     bind (emit (Download (History tickers start_t end_t False)))
       (\<lambda>_. lift (yf_history w tickers start_t end_t))"

definition download_period :: "env \<Rightarrow> string \<Rightarrow> string \<Rightarrow> string \<Rightarrow> (string \<times> fl list) list run" where
  "download_period w ticker period interval =
     bind (emit (Download (Period ticker period interval)))
       (\<lambda>_. lift (yf_period w ticker period interval))"

subsection \<open>The risk-free rate\<close>

definition column_of :: "(string \<times> fl list) list \<Rightarrow> string \<Rightarrow> py_exception + fl list" where
  "column_of t key = (case map_of t key of None \<Rightarrow> Inl (KeyError key) | Some c \<Rightarrow> Inr c)"

definition iloc_last :: "fl list \<Rightarrow> py_exception + fl" where
  "iloc_last c =
     (if c = [] then Inl (IndexError ''single positional indexer is out-of-bounds'')
      else Inr (last c))"

text \<open>The body of the \<^verbatim>\<open>try\<close>: the download of \<^verbatim>\<open>^IRX\<close> and its last Close over 100.\<close>

definition fetch_rate :: "env \<Rightarrow> fl run" where
  "fetch_rate w =
     bind (download_period w ''^IRX'' ''1d'' ''1d'')
       (\<lambda>treasury. bind (lift (column_of treasury ''Close''))
          (\<lambda>close. bind (lift (iloc_last close))
             (\<lambda>v. ret (fdiv v (Fin 100)))))"

definition could_not_fetch :: "py_exception \<Rightarrow> event" where
  "could_not_fetch e =
     Print [Lit ''Could not fetch current risk-free rate ('', Lit (str e),
            Lit ''), using default 2%'']"

definition get_risk_free_rate :: "env \<Rightarrow> fl run" where
  "get_risk_free_rate w =
     (case fetch_rate w of
        (es, Inr current_rate) \<Rightarrow> (es, Inr current_rate)
      | (es, Inl e) \<Rightarrow> (es @ [could_not_fetch e], Inr (Fin (2 / 100))))"

subsection \<open>The cells of the analysis\<close>

definition timedelta_days :: "int \<Rightarrow> int" where
  "timedelta_days d = d * 86400000000"

definition stocks :: "string list" where
  "stocks = [''MSFT'', ''QQQ'', ''INTC'', ''SPY'']"

definition step1_download :: "env \<Rightarrow> dataframe run" where
  "step1_download w =
     (let end_t = now w; start_t = end_t - timedelta_days (365 * 5)
      in bind (emit (Print [Lit ''Downloading stock data...'']))
           (\<lambda>_. download_history w stocks start_t end_t))"

definition using_rate :: "fl \<Rightarrow> event" where
  "using_rate risk_free_rate =
     Print [Lit ''Using risk-free rate: '', Field risk_free_rate ''.4f'',
            Lit '' ('', Field (fmul risk_free_rate (Fin 100)) ''.2f'', Lit ''%)'']"

definition step2_rate :: "env \<Rightarrow> fl run" where
  "step2_rate w =
     bind (get_risk_free_rate w)
       (\<lambda>risk_free_rate.
          bind (emit (using_rate risk_free_rate))
            (\<lambda>_. if isna risk_free_rate
                  then bind (emit (Print [Lit ''Using default risk-free rate: 2.00%'']))
                         (\<lambda>_. ret (Fin (2 / 100)))
                  else ret risk_free_rate))"

definition step3_calculate :: "dataframe \<Rightarrow> fl \<Rightarrow> results run" where
  "step3_calculate df risk_free_rate =
     bind (emit (Print [Lit ''Calculating Sharpe ratios...'']))
       (\<lambda>_. lift (calculate_sharpe_ratio df risk_free_rate))"

definition banner :: "string \<Rightarrow> event list" where
  "banner title =
     [Print [Lit (CHR 0x0A # replicate 80 CHR ''='')], Print [Lit title],
      Print [Lit (replicate 80 CHR ''='')]]"

text \<open>
  The display loop walks the sorted rows. Row labels are distinct, so
  \<^verbatim>\<open>.loc[stock, column]\<close> is the entry of the row at hand.
\<close>

definition performance :: "fl \<Rightarrow> string" where
  "performance sharpe_val =
     (if flt (Fin 3) sharpe_val then ''Excellent''
      else if flt (Fin 2) sharpe_val then ''Very Good''
      else if flt (Fin 1) sharpe_val then ''Good''
      else if flt (Fin 0) sharpe_val then ''Positive but Below Average''
      else ''Poor (Negative)'')"

definition show_stock :: "string \<times> metrics \<Rightarrow> event list" where
  "show_stock row =
     (case row of (stock, m) \<Rightarrow>
        [Print [Lit [CHR 0x0A], Lit stock, Lit '':''],
         Print [Lit ''  Annual Return:    '', Field (Annual_Return_Pct m) ''8.2f'', Lit ''%''],
         Print [Lit ''  Annual Volatility: '', Field (Annual_Volatility_Pct m) ''7.2f'', Lit ''%''],
         Print [Lit ''  Excess Return:    '', Field (Excess_Return_Pct m) ''8.2f'', Lit ''%''],
         Print [Lit ''  Sharpe Ratio:     '', Field (Sharpe_Ratio m) ''8.4f''],
         Print [Lit ''  Performance:      '', Lit (performance (Sharpe_Ratio m))]])"

definition step4_display :: "results \<Rightarrow> results run" where
  "step4_display sharpe_results =
     (let sharpe_results_sorted = sort_values sharpe_of sharpe_results
      in (banner ''SHARPE RATIO ANALYSIS RESULTS''
          @ concat (map show_stock sharpe_results_sorted),
          Inr sharpe_results_sorted))"

definition summary_df :: "results \<Rightarrow> (string \<times> fl list) list" where
  "summary_df sharpe_results_sorted =
     map (\<lambda>(t, m). (t, [fround 4 (Annual_Return_Pct m), fround 4 (Annual_Volatility_Pct m),
                          fround 4 (Sharpe_Ratio m)]))
       sharpe_results_sorted"

definition step5_summary :: "results \<Rightarrow> unit run" where
  "step5_summary sharpe_results_sorted =
     (banner ''SUMMARY TABLE''
      @ [Print_frame [''Annual Return (%)'', ''Volatility (%)'', ''Sharpe Ratio'']
           (summary_df sharpe_results_sorted)],
      Inr ())"

text \<open>
  \<^verbatim>\<open>index[0]\<close> raises on a frame without rows; the CSV export is the last step but one.
\<close>

definition step6_best_worst :: "results \<Rightarrow> unit run" where
  "step6_best_worst sharpe_results_sorted =
     (if sharpe_results_sorted = []
      then raise (IndexError ''index 0 is out of bounds for axis 0 with size 0'')
      else let best = hd sharpe_results_sorted; worst = last sharpe_results_sorted
           in ([Print [Lit (CHR 0x0A # '' Best Risk-Adjusted Performance: ''), Lit (fst best),
                       Lit '' (Sharpe: '', Field (sharpe_of best) ''.4f'', Lit '')''],
                Print [Lit ''Worst Risk-Adjusted Performance: '', Lit (fst worst),
                       Lit '' (Sharpe: '', Field (sharpe_of worst) ''.4f'', Lit '')''],
                To_csv ''sharpe_ratio_analysis.csv'' (round_results 4 sharpe_results_sorted),
                Print [Lit (CHR 0x0A # '' Results saved to '' @ [CHR 0x27]
                            @ ''sharpe_ratio_analysis.csv'' @ [CHR 0x27])]],
               Inr ()))"

text \<open>
  The cells run top to bottom; a cell that raises ends the run. \<open>report\<close> is what follows
  once the prices and the rate are there (steps 3 to 6).
\<close>

definition report :: "dataframe \<Rightarrow> fl \<Rightarrow> unit run" where
  "report df risk_free_rate =
     bind (step3_calculate df risk_free_rate)
       (\<lambda>sharpe_results. bind (step4_display sharpe_results)
          (\<lambda>sharpe_results_sorted. bind (step5_summary sharpe_results_sorted)
             (\<lambda>_. step6_best_worst sharpe_results_sorted)))"

definition analysis :: "env \<Rightarrow> unit run" where
  "analysis w =
     bind (step1_download w)
       (\<lambda>df. bind (step2_rate w) (\<lambda>risk_free_rate. report df risk_free_rate))"

subsection \<open>The stand-alone cell with the inline loop\<close>

text \<open>
  The last cell repeats the download and computes a Sharpe ratio per ticker in a loop,
  from the mean and the standard deviation of the daily returns in excess of the daily
  rate. The cell fixes the annual rate at 0.03; the loop body takes it as a parameter
  here. \<^verbatim>\<open>daily_returns[stock]\<close> raises where the frame has no such column.
\<close>

definition inline_sharpe_ratio :: "fl list \<Rightarrow> fl \<Rightarrow> fl" where
  "inline_sharpe_ratio rs risk_free_rate =
     (let daily_rfr = fdiv risk_free_rate (Fin 252);
          excess_daily_return = map (\<lambda>v. fsub v daily_rfr) rs;
          avg_excess_return = mean excess_daily_return;
          std_dev = std excess_daily_return
      in fdiv (fmul avg_excess_return (Fin 252)) (fmul std_dev (Fin (sqrt 252))))"

fun inline_loop :: "fl frame \<Rightarrow> fl \<Rightarrow> string list \<Rightarrow> py_exception + (string \<times> fl) list" where
  "inline_loop dr rf [] = Inr []"
| "inline_loop dr rf (stock # rest) =
     (case map_of (columns dr) stock of
        None \<Rightarrow> Inl (KeyError stock)
      | Some rs \<Rightarrow>
          (case inline_loop dr rf rest of
             Inl e \<Rightarrow> Inl e
           | Inr acc \<Rightarrow> Inr ((stock, inline_sharpe_ratio rs rf) # acc)))"

definition inline_cell :: "env \<Rightarrow> unit run" where
  "inline_cell w =
     (let end_t = now w; start_t = end_t - timedelta_days (365 * 5)
      in bind (download_history w stocks start_t end_t)
           (\<lambda>raw. bind (lift (getitem raw ''Adj Close''))
              (\<lambda>df. bind (lift (inline_loop (daily_returns df) (Fin (3 / 100)) stocks))
                 (\<lambda>sharpe_ratios.
                    emit (Print_frame [''Sharpe Ratio'']
                            (map (\<lambda>(t, s). (t, [s])) (sort_values snd sharpe_ratios)))))))"

subsection \<open>Reading a trace\<close>

fun requests :: "event list \<Rightarrow> request list" where
  "requests [] = []"
| "requests (Download r # es) = r # requests es"
| "requests (_ # es) = requests es"

fun writes :: "event list \<Rightarrow> (string \<times> results) list" where
  "writes [] = []"
| "writes (To_csv name table # es) = (name, table) # writes es"
| "writes (_ # es) = writes es"

fun is_history :: "request \<Rightarrow> bool" where
  "is_history (History _ _ _ _) = True"
| "is_history (Period _ _ _) = False"

fun is_print :: "event \<Rightarrow> bool" where
  "is_print (Print _) = True"
| "is_print (Print_frame _ _) = True"
| "is_print _ = False"

subsection \<open>Predicates on price columns\<close>

text \<open>
  A price that is a number (not missing, not an infinity), and a column in which some
  price and the next one are both zero.
\<close>

fun is_fin :: "fl \<Rightarrow> bool" where
  "is_fin (Fin _) = True"
| "is_fin _ = False"

definition consecutive_zeros :: "fl list \<Rightarrow> bool" where
  "consecutive_zeros c = list_ex (\<lambda>(p, q). p = Fin 0 \<and> q = Fin 0) (zip c (tl c))"

subsection \<open>Reference statistics of a finite column\<close>

text \<open>
  The sample mean and the sample standard deviation (divisor \<open>n - 1\<close>) of real numbers,
  to say what \<open>mean\<close> and \<open>std\<close> compute on columns without special values, and the
  columns all of whose entries are the same.
\<close>

definition average :: "real list \<Rightarrow> real" where
  "average xs = sum_list xs / real (length xs)"

definition deviation :: "real list \<Rightarrow> real" where
  "deviation xs =
     sqrt (sum_list (map (\<lambda>x. (average xs - x) ^ 2) xs) / real (length xs - 1))"

definition constant_series :: "real list \<Rightarrow> bool" where
  "constant_series xs = list_all (\<lambda>x. x = hd xs) xs"

section \<open>Sample inputs\<close>

text \<open>
  A frame of three trading days with a flat price column and a rising one, as the
  provider returns it and as its adjusted closes alone; a frame whose prices start with
  two zeros; a frame with a missing quote; a frame with the flat column alone; and four
  worlds: one where both queries are answered, one where the rate query fails, one where
  every query fails, and one that answers with the flat column and a rate of 4.23456
  percent.
\<close>

definition sample_prices :: dataframe where
  "sample_prices =
     \<lparr>df_index = [0, 1, 2],
      df_fields = [(''Adj Close'', [(''INTC'', [Fin 1, Fin 1, Fin 1]),
                                    (''MSFT'', [Fin 1, Fin 2, Fin 3])])]\<rparr>"

definition sample_adj_close :: "fl frame" where
  "sample_adj_close =
     \<lparr>index = [0, 1, 2],
      columns = [(''INTC'', [Fin 1, Fin 1, Fin 1]), (''MSFT'', [Fin 1, Fin 2, Fin 3])]\<rparr>"

definition zero_frame :: "fl frame" where
  "zero_frame = \<lparr>index = [0, 1, 2], columns = [(''SPY'', [Fin 0, Fin 0, Fin 1])]\<rparr>"

definition gap_frame :: "fl frame" where
  "gap_frame = \<lparr>index = [0, 1, 2], columns = [(''SPY'', [Fin 1, NaN, Fin 2])]\<rparr>"

definition flat_prices :: dataframe where
  "flat_prices =
     \<lparr>df_index = [0, 1, 2], df_fields = [(''Adj Close'', [(''INTC'', [Fin 1, Fin 1, Fin 1])])]\<rparr>"

definition sample_world :: env where
  "sample_world =
     \<lparr>now = 1700000000000000,
      yf_history = (\<lambda>tickers start_t end_t. Inr sample_prices),
      yf_period = (\<lambda>ticker period interval. Inr [(''Close'', [Fin 5, Fin 4])])\<rparr>"

definition no_rate_world :: env where
  "no_rate_world =
     \<lparr>now = 1700000000000000,
      yf_history = (\<lambda>tickers start_t end_t. Inr sample_prices),
      yf_period = (\<lambda>ticker period interval. Inl (ProviderError ''connection refused''))\<rparr>"

definition offline_world :: env where
  "offline_world =
     \<lparr>now = 1800000000000000,
      yf_history = (\<lambda>tickers start_t end_t. Inl (ProviderError ''connection refused'')),
      yf_period = (\<lambda>ticker period interval. Inl (ProviderError ''connection refused''))\<rparr>"

definition decimal_world :: env where
  "decimal_world =
     \<lparr>now = 1700000000000000,
      yf_history = (\<lambda>tickers start_t end_t. Inr flat_prices),
      yf_period = (\<lambda>ticker period interval. Inr [(''Close'', [Fin (423456 / 100000)])])\<rparr>"

section \<open>Properties\<close>

lemma calculate_sharpe_ratio_rows:
  assumes "calculate_sharpe_ratio df rf = Inr res" and "(t, m) \<in> set res"
  shows "\<exists>rs. m = result_row rs rf"
  using assms by (auto simp: calculate_sharpe_ratio_def split: sum.splits)

text \<open>
  Claim C2. In every result that \<open>calculate_sharpe_ratio\<close> returns, the Sharpe_Ratio
  entry of each stock is its Annual_Return entry minus the risk-free rate, divided by its
  Annual_Volatility entry.
\<close>

theorem sharpe_ratio_is_excess_over_volatility:
  assumes "calculate_sharpe_ratio df risk_free_rate = Inr res"
    and "(stock, m) \<in> set res"
  shows "Sharpe_Ratio m = fdiv (fsub (Annual_Return m) risk_free_rate) (Annual_Volatility m)"
proof -
  obtain rs where "m = result_row rs risk_free_rate"
    using calculate_sharpe_ratio_rows [OF assms] by blast
  then show ?thesis
    by (simp add: result_row_def sharpe_ratios_def excess_returns_def)
qed

lemma sample_daily_returns:
  "daily_returns \<lparr>index = [0, 1, 2],
                   columns = [(''INTC'', [Fin 1, Fin 1, Fin 1]), (''MSFT'', [Fin 1, Fin 2, Fin 3])]\<rparr>
   = \<lparr>index = [1, 2], columns = [(''INTC'', [Fin 0, Fin 0]), (''MSFT'', [Fin 1, Fin (1 / 2)])]\<rparr>"
  by (simp add: daily_returns_def dropna_def kept_rows_def pct_change_def pct_change_col_def
      ffill_def shift1_def row_has_na_def isna_def fsub_def upt_rec)

lemma sample_results:
  "calculate_sharpe_ratio sample_prices rf =
     Inr [(''INTC'', result_row [Fin 0, Fin 0] rf), (''MSFT'', result_row [Fin 1, Fin (1 / 2)] rf)]"
  by (simp add: calculate_sharpe_ratio_def getitem_def sample_prices_def sample_daily_returns)

theorem sharpe_ratio_is_excess_over_volatility_witness:
  "\<exists>res m. calculate_sharpe_ratio sample_prices (Fin (2 / 100)) = Inr res
     \<and> (''MSFT'', m) \<in> set res
     \<and> Sharpe_Ratio m = fdiv (fsub (Annual_Return m) (Fin (2 / 100))) (Annual_Volatility m)"
proof -
  let ?m = "result_row [Fin 1, Fin (1 / 2)] (Fin (2 / 100))"
  have r: "calculate_sharpe_ratio sample_prices (Fin (2 / 100))
             = Inr [(''INTC'', result_row [Fin 0, Fin 0] (Fin (2 / 100))), (''MSFT'', ?m)]"
    by (rule sample_results)
  have i: "(''MSFT'', ?m) \<in> set [(''INTC'', result_row [Fin 0, Fin 0] (Fin (2 / 100))), (''MSFT'', ?m)]"
    by simp
  from sharpe_ratio_is_excess_over_volatility [OF r i] r i show ?thesis
    by blast
qed

lemma fetch_rate_cases:
  "fetch_rate w =
     (case yf_period w ''^IRX'' ''1d'' ''1d'' of
        Inl e \<Rightarrow> ([Download (Period ''^IRX'' ''1d'' ''1d'')], Inl e)
      | Inr treasury \<Rightarrow>
          (case map_of treasury ''Close'' of
             None \<Rightarrow> ([Download (Period ''^IRX'' ''1d'' ''1d'')], Inl (KeyError ''Close''))
           | Some close \<Rightarrow>
               if close = []
               then ([Download (Period ''^IRX'' ''1d'' ''1d'')],
                     Inl (IndexError ''single positional indexer is out-of-bounds''))
               else ([Download (Period ''^IRX'' ''1d'' ''1d'')],
                     Inr (fdiv (last close) (Fin 100)))))"
  by (simp add: fetch_rate_def download_period_def bind_def emit_def lift_def ret_def
      column_of_def iloc_last_def split: sum.splits option.splits)

text \<open>
  Claim C1. Whatever exception the body of the \<^verbatim>\<open>try\<close> raises (the download of \<^verbatim>\<open>^IRX\<close>,
  the lookup of its Close column or the read of its last entry), \<open>get_risk_free_rate\<close>
  catches it, prints the message that holds the exception's text and returns the default
  rate 0.02. When nothing is raised it returns the last Close entry divided by 100. It
  never raises itself.
\<close>

theorem get_risk_free_rate_falls_back:
  "(snd (fetch_rate w) = Inl e \<longrightarrow>
      get_risk_free_rate w = (fst (fetch_rate w) @ [could_not_fetch e], Inr (Fin (2 / 100))))
   \<and> (snd (fetch_rate w) = Inr r \<longrightarrow>
        (\<exists>treasury close.
           yf_period w ''^IRX'' ''1d'' ''1d'' = Inr treasury
           \<and> map_of treasury ''Close'' = Some close \<and> close \<noteq> []
           \<and> r = fdiv (last close) (Fin 100)
           \<and> get_risk_free_rate w = ([Download (Period ''^IRX'' ''1d'' ''1d'')], Inr r)))
   \<and> (\<exists>es rate. get_risk_free_rate w = (es, Inr rate))"
proof (intro conjI impI)
  assume "snd (fetch_rate w) = Inl e"
  then show "get_risk_free_rate w = (fst (fetch_rate w) @ [could_not_fetch e], Inr (Fin (2 / 100)))"
    by (cases "fetch_rate w") (simp add: get_risk_free_rate_def)
next
  assume ok: "snd (fetch_rate w) = Inr r"
  then show "\<exists>treasury close.
           yf_period w ''^IRX'' ''1d'' ''1d'' = Inr treasury
           \<and> map_of treasury ''Close'' = Some close \<and> close \<noteq> []
           \<and> r = fdiv (last close) (Fin 100)
           \<and> get_risk_free_rate w = ([Download (Period ''^IRX'' ''1d'' ''1d'')], Inr r)"
    by (auto simp: fetch_rate_cases get_risk_free_rate_def split: sum.splits option.splits if_splits)
next
  show "\<exists>es rate. get_risk_free_rate w = (es, Inr rate)"
    by (cases "fetch_rate w") (auto simp: get_risk_free_rate_def split: sum.splits)
qed

lemma fetch_rate_no_rate_world:
  "fetch_rate no_rate_world
     = ([Download (Period ''^IRX'' ''1d'' ''1d'')], Inl (ProviderError ''connection refused''))"
  by (simp add: fetch_rate_cases no_rate_world_def)

lemma fetch_rate_sample_world:
  "fetch_rate sample_world = ([Download (Period ''^IRX'' ''1d'' ''1d'')], Inr (Fin (4 / 100)))"
  by (simp add: fetch_rate_cases sample_world_def)

theorem get_risk_free_rate_falls_back_witness:
  "snd (fetch_rate no_rate_world) = Inl (ProviderError ''connection refused'')
   \<and> get_risk_free_rate no_rate_world
       = ([Download (Period ''^IRX'' ''1d'' ''1d''),
           could_not_fetch (ProviderError ''connection refused'')], Inr (Fin (2 / 100)))
   \<and> snd (fetch_rate sample_world) = Inr (Fin (4 / 100))
   \<and> get_risk_free_rate sample_world
       = ([Download (Period ''^IRX'' ''1d'' ''1d'')], Inr (Fin (4 / 100)))"
  using get_risk_free_rate_falls_back [of no_rate_world "ProviderError ''connection refused''"]
    get_risk_free_rate_falls_back [of sample_world _ "Fin (4 / 100)"]
  by (auto simp add: fetch_rate_no_rate_world fetch_rate_sample_world)

subsection \<open>Daily returns\<close>

lemma pad_from_fin: "list_all is_fin xs \<Longrightarrow> pad_from prev xs = xs"
proof (induction xs arbitrary: prev)
  case Nil
  then show ?case by simp
next
  case (Cons x xs)
  then show ?case by (cases x) (simp_all add: isna_def)
qed

lemma ffill_fin: "list_all is_fin xs \<Longrightarrow> ffill xs = xs"
  by (simp add: ffill_def pad_from_fin)

lemma pct_change_col_fin:
  assumes "list_all is_fin c"
  shows "pct_change_col c = map2 (\<lambda>p q. fsub (fdiv p q) (Fin 1)) c (shift1 c)"
  using assms by (simp add: pct_change_col_def ffill_fin)

lemma pct_change_col_first:
  assumes "c \<noteq> []" and "list_all is_fin c"
  shows "pct_change_col c ! 0 = NaN"
proof -
  obtain p ps where c: "c = p # ps"
    using assms(1) by (cases c) auto
  obtain a where "p = Fin a"
    using assms(2) c by (cases p) simp_all
  then show ?thesis
    unfolding pct_change_col_fin [OF assms(2)] using c by (simp add: shift1_def fsub_def)
qed

lemma shift1_nth:
  assumes "0 < i" and "i < length xs"
  shows "shift1 xs ! i = xs ! (i - 1)"
proof -
  have "xs \<noteq> []" using assms by auto
  moreover have "i - 1 < length (butlast xs)" using assms by simp
  ultimately show ?thesis
    using assms by (cases i) (simp_all add: shift1_def nth_butlast)
qed

lemma pct_change_col_nth:
  assumes "list_all is_fin c" and "0 < i" and "i < length c"
  shows "pct_change_col c ! i = fsub (fdiv (c ! i) (c ! (i - 1))) (Fin 1)"
proof -
  have l: "length (shift1 c) = length c"
    using assms by (simp add: shift1_def)
  have "shift1 c ! i = c ! (i - 1)"
    using assms by (simp add: shift1_nth)
  then show ?thesis
    unfolding pct_change_col_fin [OF assms(1)] using assms l by simp
qed

lemma change_isna_iff:
  "isna (fsub (fdiv (Fin p) (Fin q)) (Fin 1)) \<longleftrightarrow> p = 0 \<and> q = 0"
  by (simp add: isna_def fsub_def)

lemma consecutive_zeros_nth:
  assumes "\<not> consecutive_zeros c" and "0 < i" and "i < length c"
  shows "\<not> (c ! i = Fin 0 \<and> c ! (i - 1) = Fin 0)"
proof
  assume z: "c ! i = Fin 0 \<and> c ! (i - 1) = Fin 0"
  have "i - 1 < length (zip c (tl c))" using assms by simp
  then have "zip c (tl c) ! (i - 1) \<in> set (zip c (tl c))"
    by (rule nth_mem)
  moreover have "zip c (tl c) ! (i - 1) = (c ! (i - 1), c ! i)"
    using assms by (simp add: nth_tl)
  ultimately have "consecutive_zeros c"
    using z by (auto simp: consecutive_zeros_def list_ex_iff)
  with assms show False by simp
qed

lemma filter_upt_drop_first:
  assumes "0 < n" and "\<not> P 0" and "\<And>i. 0 < i \<Longrightarrow> i < n \<Longrightarrow> P i"
  shows "filter P [0..<n] = [1..<n]"
proof -
  have "[0..<n] = 0 # [1..<n]"
    using assms(1) by (simp add: upt_rec)
  moreover have "filter P [1..<n] = [1..<n]"
    using assms(3) by (intro filter_True) auto
  ultimately show ?thesis
    using assms(2) by simp
qed

lemma map_nth_from_one: "map (\<lambda>i. xs ! i) [1..<length xs] = tl xs"
proof -
  have "tl xs = map (\<lambda>i. tl xs ! i) [0..<length (tl xs)]"
    by (rule map_nth [symmetric])
  also have "\<dots> = map (\<lambda>i. xs ! Suc i) [0..<length xs - 1]"
    by (simp add: nth_tl)
  also have "\<dots> = map (\<lambda>i. xs ! i) (map Suc [0..<length xs - 1])"
    by (simp add: comp_def)
  also have "map Suc [0..<length xs - 1] = [1..<length xs]"
    by (cases xs) (simp_all add: map_Suc_upt)
  finally show ?thesis by simp
qed

lemma kept_rows_pct_change:
  assumes wf: "wf_frame f" and cols: "columns f \<noteq> []" and n: "0 < length (index f)"
    and ok: "list_all (\<lambda>c. list_all is_fin (snd c) \<and> \<not> consecutive_zeros (snd c)) (columns f)"
  shows "kept_rows (pct_change f) = [1..<length (index f)]"
proof -
  let ?cols = "columns (pct_change f)"
  have len: "\<And>t c. (t, c) \<in> set (columns f) \<Longrightarrow> length c = length (index f)"
    using wf by (auto simp: wf_frame_def list_all_iff)
  have fin: "\<And>t c. (t, c) \<in> set (columns f) \<Longrightarrow> list_all is_fin c"
    and nz: "\<And>t c. (t, c) \<in> set (columns f) \<Longrightarrow> \<not> consecutive_zeros c"
    using ok by (auto simp: list_all_iff)
  have first: "row_has_na ?cols 0"
  proof -
    obtain t c where tc: "(t, c) \<in> set (columns f)"
      using cols by (cases "columns f") auto
    then have "c \<noteq> []" using len n by fastforce
    then have "isna (pct_change_col c ! 0)"
      using fin [OF tc] by (simp add: pct_change_col_first isna_def)
    with tc show ?thesis
      by (force simp: row_has_na_def pct_change_def list_ex_iff)
  qed
  have rest: "\<not> row_has_na ?cols i" if i: "0 < i" "i < length (index f)" for i
  proof
    assume "row_has_na ?cols i"
    then obtain t c where tc: "(t, c) \<in> set (columns f)"
      and na: "isna (pct_change_col c ! i)"
      by (auto simp: row_has_na_def pct_change_def list_ex_iff)
    have li: "i < length c" "i - 1 < length c" using len [OF tc] i by simp_all
    obtain p q where pq: "c ! i = Fin p" "c ! (i - 1) = Fin q"
      using fin [OF tc] li
      by (metis is_fin.elims(2) list_all_length)
    have "\<not> (c ! i = Fin 0 \<and> c ! (i - 1) = Fin 0)"
      using nz [OF tc] i li(1) by (intro consecutive_zeros_nth)
    moreover have "isna (fsub (fdiv (Fin p) (Fin q)) (Fin 1))"
      using na i li(1) pq pct_change_col_nth [OF fin [OF tc], of i] by simp
    then have "p = 0 \<and> q = 0"
      by (simp only: change_isna_iff)
    ultimately show False using pq by simp
  qed
  have "filter (\<lambda>i. \<not> row_has_na ?cols i) [0..<length (index f)] = [1..<length (index f)]"
    using n first rest by (intro filter_upt_drop_first) auto
  then show ?thesis
    by (simp add: kept_rows_def pct_change_def)
qed

text \<open>
  Claim C3, as amended. For a frame of at least two rows of prices, every price a
  number (none missing, none infinite) and no column holding two consecutive zero prices,
  the daily returns are the one-step percentage changes, the return at row \<open>i\<close> being
  price \<open>i\<close> over price \<open>i - 1\<close> minus 1 in float arithmetic; only the first row is
  dropped, so the returns have one row fewer than the prices and their index is the
  price index without its first date.
\<close>

theorem daily_returns_are_percentage_changes:
  assumes "wf_frame f" and "columns f \<noteq> []" and "2 \<le> length (index f)"
    and "list_all (\<lambda>c. list_all is_fin (snd c) \<and> \<not> consecutive_zeros (snd c)) (columns f)"
  shows "index (daily_returns f) = tl (index f)
     \<and> Suc (length (index (daily_returns f))) = length (index f)
     \<and> columns (daily_returns f)
         = map (\<lambda>(t, c). (t, map (\<lambda>i. fsub (fdiv (c ! i) (c ! (i - 1))) (Fin 1))
                                  [1..<length c]))
             (columns f)"
proof -
  have n: "0 < length (index f)" using assms(3) by linarith
  have k: "kept_rows (pct_change f) = [1..<length (index f)]"
    using assms(1,2) n assms(4) by (rule kept_rows_pct_change)
  have len: "\<And>t c. (t, c) \<in> set (columns f) \<Longrightarrow> length c = length (index f)"
    using assms(1) by (auto simp: wf_frame_def list_all_iff)
  have fin: "\<And>t c. (t, c) \<in> set (columns f) \<Longrightarrow> list_all is_fin c"
    using assms(4) by (auto simp: list_all_iff)
  have "index (daily_returns f) = map (\<lambda>i. index f ! i) [1..<length (index f)]"
    unfolding daily_returns_def dropna_def k by (simp add: pct_change_def)
  then have i: "index (daily_returns f) = tl (index f)"
    by (simp only: map_nth_from_one)
  have c: "columns (daily_returns f)
         = map (\<lambda>(t, c). (t, map (\<lambda>i. fsub (fdiv (c ! i) (c ! (i - 1))) (Fin 1))
                                  [1..<length c]))
             (columns f)"
    unfolding daily_returns_def dropna_def k
    using len fin by (auto simp: pct_change_def pct_change_col_nth)
  show ?thesis
    using i c n by simp
qed

theorem daily_returns_are_percentage_changes_witness:
  "wf_frame sample_adj_close \<and> columns sample_adj_close \<noteq> []
   \<and> 2 \<le> length (index sample_adj_close)
   \<and> list_all (\<lambda>c. list_all is_fin (snd c) \<and> \<not> consecutive_zeros (snd c))
        (columns sample_adj_close)
   \<and> index (daily_returns sample_adj_close) = [1, 2]
   \<and> columns (daily_returns sample_adj_close)
       = [(''INTC'', [Fin 0, Fin 0]), (''MSFT'', [Fin 1, Fin (1 / 2)])]"
proof -
  have h: "wf_frame sample_adj_close" "columns sample_adj_close \<noteq> []"
    "2 \<le> length (index sample_adj_close)"
    "list_all (\<lambda>c. list_all is_fin (snd c) \<and> \<not> consecutive_zeros (snd c))
        (columns sample_adj_close)"
    by (simp_all add: sample_adj_close_def wf_frame_def consecutive_zeros_def)
  have u: "[1..<3] = [1, 2::nat]"
    by (simp add: upt_rec)
  show ?thesis
    using daily_returns_are_percentage_changes [OF h] h
    by (simp add: sample_adj_close_def fsub_def u)
qed

text \<open>
  The claim as stated fails where a price of zero follows a price of zero: that change
  is 0 / 0, which is NaN, and \<^verbatim>\<open>dropna\<close> removes its row too. Of three rows one is left.
\<close>

theorem daily_returns_zero_prices_counterexample:
  "length (index zero_frame) = 3
   \<and> index (daily_returns zero_frame) = [2]
   \<and> columns (daily_returns zero_frame) = [(''SPY'', [PInf])]
   \<and> Suc (length (index (daily_returns zero_frame))) \<noteq> length (index zero_frame)"
  by (simp add: zero_frame_def daily_returns_def dropna_def kept_rows_def pct_change_def
      pct_change_col_def ffill_def shift1_def row_has_na_def isna_def fsub_def upt_rec)

text \<open>
  A missing quote is why the prices must be numbers: it is filled with the quote before
  it, so the return at its row is 0 and the return at the next row is taken against the
  older quote, neither being price over previous price minus 1.
\<close>

lemma daily_returns_missing_quote:
  "daily_returns gap_frame = \<lparr>index = [1, 2], columns = [(''SPY'', [Fin 0, Fin 1])]\<rparr>"
  by (simp add: gap_frame_def daily_returns_def dropna_def kept_rows_def pct_change_def
      pct_change_col_def ffill_def shift1_def row_has_na_def isna_def fsub_def upt_rec)

subsection \<open>Statistics of columns without special values\<close>

lemma foldl_fadd_Fin: "foldl fadd (Fin a) (map Fin xs) = Fin (a + sum_list xs)"
  by (induction xs arbitrary: a) (simp_all add: add.assoc)

lemma fsum_Fin: "fsum (map Fin xs) = Fin (sum_list xs)"
  by (simp add: fsum_def foldl_fadd_Fin)

lemma filter_isna_Fin: "filter (\<lambda>v. \<not> isna v) (map Fin xs) = map Fin xs"
  by (induction xs) (simp_all add: isna_def)

lemma mean_Fin:
  assumes "xs \<noteq> []"
  shows "mean (map Fin xs) = Fin (average xs)"
  using assms by (simp add: mean_def filter_isna_Fin fsum_Fin average_def)

lemma squares_Fin:
  "map (\<lambda>v. fpow (fsub (Fin a) v) 2) (map Fin xs) = map Fin (map (\<lambda>x. (a - x) ^ 2) xs)"
  by (induction xs) (simp_all add: fsub_def)

lemma sum_list_squares_nonneg: "(0::real) \<le> sum_list (map (\<lambda>x. (a - x) ^ 2) xs)"
  by (induction xs) simp_all

lemma std_Fin:
  assumes "2 \<le> length xs"
  shows "std (map Fin xs) = Fin (deviation xs)"
proof -
  have n: "\<not> length xs \<le> 1" "real (length xs) \<noteq> 0" "real (length xs - 1) \<noteq> 0"
    using assms by (cases xs; auto)+
  have nonneg: "0 \<le> sum_list (map (\<lambda>x. (average xs - x) ^ 2) xs) / real (length xs - 1)"
    by (intro divide_nonneg_nonneg sum_list_squares_nonneg) simp
  have "std (map Fin xs)
          = fsqrt (fdiv (fsum (map (\<lambda>v. fpow (fsub (Fin (average xs)) v) 2) (map Fin xs)))
                        (Fin (real (length xs - 1))))"
    using n by (simp add: std_def filter_isna_Fin fsum_Fin average_def Let_def)
  also have "\<dots> = fsqrt (Fin (sum_list (map (\<lambda>x. (average xs - x) ^ 2) xs) / real (length xs - 1)))"
    using n by (simp only: squares_Fin fsum_Fin fdiv.simps if_False)
  also have "\<dots> = Fin (deviation xs)"
    using nonneg by (simp add: deviation_def)
  finally show ?thesis .
qed

lemma term_le_sum_list:
  assumes "y \<in> set xs" and "\<And>x. x \<in> set xs \<Longrightarrow> 0 \<le> f x"
  shows "(f y :: real) \<le> sum_list (map f xs)"
  using assms
proof (induction xs)
  case Nil
  then show ?case by simp
next
  case (Cons a xs)
  have rest: "0 \<le> sum_list (map f xs)"
    using Cons.prems(2) by (intro sum_list_nonneg) auto
  show ?case
  proof (cases "y = a")
    case True
    then show ?thesis using rest by simp
  next
    case False
    then have "f y \<le> sum_list (map f xs)"
      using Cons by auto
    moreover have "0 \<le> f a" using Cons.prems(2) by simp
    ultimately show ?thesis by simp
  qed
qed

lemma not_constant_length:
  assumes "\<not> constant_series xs"
  shows "2 \<le> length xs"
proof (cases xs)
  case Nil
  with assms show ?thesis by (simp add: constant_series_def)
next
  case (Cons a ys)
  with assms show ?thesis by (cases ys) (simp_all add: constant_series_def)
qed

lemma deviation_pos:
  assumes "\<not> constant_series xs"
  shows "0 < deviation xs"
proof -
  have len: "2 \<le> length xs" using assms by (rule not_constant_length)
  obtain x where x: "x \<in> set xs" "x \<noteq> hd xs"
    using assms by (auto simp: constant_series_def list_all_iff)
  have h: "hd xs \<in> set xs" using len by (cases xs) auto
  obtain y where y: "y \<in> set xs" "average xs \<noteq> y"
    using x h by (cases "average xs = x") auto
  have "0 < (average xs - y) ^ 2" using y by simp
  also have "\<dots> \<le> sum_list (map (\<lambda>x. (average xs - x) ^ 2) xs)"
    using y(1) by (intro term_le_sum_list) auto
  finally have "0 < sum_list (map (\<lambda>x. (average xs - x) ^ 2) xs) / real (length xs - 1)"
    using len by (intro divide_pos_pos) auto
  then show ?thesis by (simp add: deviation_def)
qed

lemma average_shift:
  assumes "xs \<noteq> []"
  shows "average (map (\<lambda>x. x - c) xs) = average xs - c"
proof -
  have "sum_list (map (\<lambda>x. x - c) xs) = sum_list xs - real (length xs) * c"
    by (induction xs) (simp_all add: algebra_simps)
  then show ?thesis
    using assms by (simp add: average_def diff_divide_distrib)
qed

lemma deviation_shift:
  assumes "xs \<noteq> []"
  shows "deviation (map (\<lambda>x. x - c) xs) = deviation xs"
  using assms by (simp add: deviation_def average_shift comp_def)

lemma annual_returns_Fin:
  assumes "xs \<noteq> []"
  shows "annual_returns (map Fin xs) = Fin ((1 + average xs) ^ 252 - 1)"
  using assms by (simp add: annual_returns_def mean_Fin trading_days_def fsub_def)

lemma annual_volatility_Fin:
  assumes "2 \<le> length xs"
  shows "annual_volatility (map Fin xs) = Fin (deviation xs * sqrt 252)"
  using assms by (simp add: annual_volatility_def std_Fin trading_days_def)

lemma excess_daily_return_Fin:
  "map (\<lambda>v. fsub v (fdiv (Fin r) (Fin 252))) (map Fin xs) = map Fin (map (\<lambda>x. x - r / 252) xs)"
  by (induction xs) (simp_all add: fsub_def)

lemma sharpe_ratios_Fin:
  assumes "2 \<le> length xs"
  shows "sharpe_ratios (map Fin xs) (Fin r)
           = fdiv (Fin ((1 + average xs) ^ 252 - 1 - r)) (Fin (deviation xs * sqrt 252))"
proof -
  have "xs \<noteq> []" using assms by auto
  then show ?thesis
    using assms
    by (simp add: sharpe_ratios_def excess_returns_def annual_returns_Fin annual_volatility_Fin
        fsub_def del: fdiv.simps)
qed

lemma inline_sharpe_ratio_Fin:
  assumes "2 \<le> length xs"
  shows "inline_sharpe_ratio (map Fin xs) (Fin r)
           = fdiv (Fin (252 * average xs - r)) (Fin (deviation xs * sqrt 252))"
proof -
  have ne: "xs \<noteq> []" using assms by auto
  have ne': "map (\<lambda>x. x - r / 252) xs \<noteq> []" and len': "2 \<le> length (map (\<lambda>x. x - r / 252) xs)"
    using ne assms by simp_all
  have m: "mean (map Fin (map (\<lambda>x. x - r / 252) xs)) = Fin (average xs - r / 252)"
    using mean_Fin [OF ne'] by (simp only: average_shift [OF ne])
  have s: "std (map Fin (map (\<lambda>x. x - r / 252) xs)) = Fin (deviation xs)"
    using std_Fin [OF len'] by (simp only: deviation_shift [OF ne])
  have "inline_sharpe_ratio (map Fin xs) (Fin r)
          = fdiv (fmul (Fin (average xs - r / 252)) (Fin 252))
                 (fmul (Fin (deviation xs)) (Fin (sqrt 252)))"
    unfolding inline_sharpe_ratio_def Let_def excess_daily_return_Fin m s ..
  also have "\<dots> = fdiv (Fin (252 * average xs - r)) (Fin (deviation xs * sqrt 252))"
    by (simp add: algebra_simps del: fdiv.simps)
  finally show ?thesis .
qed

subsection \<open>The division by the volatility\<close>

lemma sample_returns_stats:
  "average [1, 1 / 2] = 3 / 4" "deviation [1, 1 / 2] = sqrt (1 / 8)" "\<not> constant_series [1, 1 / 2]"
  "average [0, 0] = 0" "deviation [0, 0] = 0" "constant_series [0, 0]"
  by (simp_all add: average_def deviation_def constant_series_def power2_eq_square)




subsection \<open>Geometric against arithmetic annualisation\<close>


lemma sharpe_values:
  assumes "\<not> constant_series xs"
  shows "0 < deviation xs * sqrt 252"
    and "annual_volatility (map Fin xs) = Fin (deviation xs * sqrt 252)"
    and "sharpe_ratios (map Fin xs) (Fin r)
           = Fin (((1 + average xs) ^ 252 - 1 - r) / (deviation xs * sqrt 252))"
    and "inline_sharpe_ratio (map Fin xs) (Fin r)
           = Fin ((252 * average xs - r) / (deviation xs * sqrt 252))"
proof -
  have len: "2 \<le> length xs" using assms by (rule not_constant_length)
  have pos: "0 < deviation xs" using assms by (rule deviation_pos)
  then show v: "0 < deviation xs * sqrt 252" by simp
  show "annual_volatility (map Fin xs) = Fin (deviation xs * sqrt 252)"
    by (rule annual_volatility_Fin [OF len])
  show "sharpe_ratios (map Fin xs) (Fin r)
           = Fin (((1 + average xs) ^ 252 - 1 - r) / (deviation xs * sqrt 252))"
    using pos by (simp add: sharpe_ratios_Fin [OF len])
  show "inline_sharpe_ratio (map Fin xs) (Fin r)
           = Fin ((252 * average xs - r) / (deviation xs * sqrt 252))"
    using pos by (simp add: inline_sharpe_ratio_Fin [OF len])
qed





subsection \<open>Sorting by the Sharpe ratio\<close>

lemma fle_trans: "fle a b \<Longrightarrow> fle b c \<Longrightarrow> fle a c"
  by (cases a; cases b; cases c) simp_all

lemma fle_total: "\<not> isna a \<Longrightarrow> \<not> isna b \<Longrightarrow> fle a b \<or> fle b a"
  by (cases a; cases b) (auto simp: isna_def)

lemma fle_refl: "\<not> isna a \<Longrightarrow> fle a a"
  by (cases a) (simp_all add: isna_def)

lemma mset_insert_desc: "mset (insert_desc key r xs) = add_mset r (mset xs)"
  by (induction xs) simp_all

lemma set_insert_desc: "set (insert_desc key r xs) = insert r (set xs)"
  by (induction xs) auto

lemma sorted_insert_desc:
  assumes "sorted_wrt (\<lambda>x y. fle (key y) (key x)) xs"
    and "\<not> isna (key r)" and "\<And>x. x \<in> set xs \<Longrightarrow> \<not> isna (key x)"
  shows "sorted_wrt (\<lambda>x y. fle (key y) (key x)) (insert_desc key r xs)"
  using assms
proof (induction xs)
  case Nil
  then show ?case by simp
next
  case (Cons x xs)
  show ?case
  proof (cases "fle (key x) (key r)")
    case True
    have "fle (key y) (key r)" if "y \<in> set xs" for y
      using Cons.prems(1) that True fle_trans by fastforce
    with True Cons.prems(1) show ?thesis by simp
  next
    case False
    then have "fle (key r) (key x)"
      using fle_total [of "key x" "key r"] Cons.prems(2,3) by auto
    moreover have "sorted_wrt (\<lambda>x y. fle (key y) (key x)) (insert_desc key r xs)"
      using Cons by simp
    ultimately show ?thesis
      using False Cons.prems(1) by (auto simp: set_insert_desc)
  qed
qed

lemma foldr_insert_desc:
  assumes "\<And>x. x \<in> set xs \<Longrightarrow> \<not> isna (key x)"
  shows "sorted_wrt (\<lambda>x y. fle (key y) (key x)) (foldr (insert_desc key) xs [])
     \<and> mset (foldr (insert_desc key) xs []) = mset xs"
  using assms
proof (induction xs)
  case Nil
  then show ?case by simp
next
  case (Cons a xs)
  then have ih: "sorted_wrt (\<lambda>x y. fle (key y) (key x)) (foldr (insert_desc key) xs [])"
    and ms: "mset (foldr (insert_desc key) xs []) = mset xs"
    by simp_all
  have "\<And>x. x \<in> set (foldr (insert_desc key) xs []) \<Longrightarrow> \<not> isna (key x)"
    using Cons.prems ms by (metis list.set_intros(2) set_mset_mset)
  then have "sorted_wrt (\<lambda>x y. fle (key y) (key x)) (insert_desc key a (foldr (insert_desc key) xs []))"
    using ih Cons.prems by (intro sorted_insert_desc) auto
  then show ?case
    using ms by (simp add: mset_insert_desc)
qed

lemma sort_values_no_nan:
  assumes "list_all (\<lambda>r. \<not> isna (key r)) rows"
  shows "sort_values key rows = foldr (insert_desc key) rows []"
proof -
  have "filter (\<lambda>r. \<not> isna (key r)) rows = rows" "filter (\<lambda>r. isna (key r)) rows = []"
    using assms by (induction rows) simp_all
  then show ?thesis
    by (simp add: sort_values_def)
qed

lemma mset_sort_values: "mset (sort_values key rows) = mset rows"
proof -
  have "mset (foldr (insert_desc key) (filter (\<lambda>r. \<not> isna (key r)) rows) [])
          = mset (filter (\<lambda>r. \<not> isna (key r)) rows)"
    by (intro foldr_insert_desc [THEN conjunct2]) simp
  then show ?thesis
    by (simp add: sort_values_def)
qed

lemma sorted_desc_ends:
  assumes "sorted_wrt (\<lambda>x y. fle (key y) (key x)) xs" and "x \<in> set xs"
    and "\<And>y. y \<in> set xs \<Longrightarrow> \<not> isna (key y)"
  shows "fle (key x) (key (hd xs)) \<and> fle (key (last xs)) (key x)"
proof -
  obtain i where i: "i < length xs" "xs ! i = x"
    using assms(2) by (auto simp: in_set_conv_nth)
  have ne: "xs \<noteq> []" using assms(2) by auto
  have "fle (key x) (key (hd xs))"
  proof (cases "i = 0")
    case True
    then show ?thesis using i ne assms(2,3) by (simp add: hd_conv_nth fle_refl)
  next
    case False
    then show ?thesis
      using sorted_wrt_nth_less [OF assms(1), of 0 i] i ne by (simp add: hd_conv_nth)
  qed
  moreover have "fle (key (last xs)) (key x)"
  proof (cases "i = length xs - 1")
    case True
    then show ?thesis using i ne assms(2,3) by (simp add: last_conv_nth fle_refl)
  next
    case False
    then show ?thesis
      using sorted_wrt_nth_less [OF assms(1), of i "length xs - 1"] i ne
      by (simp add: last_conv_nth)
  qed
  ultimately show ?thesis by simp
qed

text \<open>
  Claim C10, as amended. For every non-empty results table in which no Sharpe ratio is
  NaN, the table sorted by \<^verbatim>\<open>Sharpe_Ratio\<close> in descending order holds the same rows, its
  first row has a Sharpe ratio greater than or equal to that of every row and its last
  row one less than or equal to that of every row: the stocks reported as best and worst
  attain the maximum and the minimum.
\<close>

theorem sorted_results_best_and_worst:
  assumes "sharpe_results \<noteq> []"
    and "list_all (\<lambda>row. \<not> isna (sharpe_of row)) sharpe_results"
  shows "mset (sort_values sharpe_of sharpe_results) = mset sharpe_results
     \<and> hd (sort_values sharpe_of sharpe_results) \<in> set sharpe_results
     \<and> last (sort_values sharpe_of sharpe_results) \<in> set sharpe_results
     \<and> (\<forall>row \<in> set sharpe_results.
           fle (sharpe_of row) (sharpe_of (hd (sort_values sharpe_of sharpe_results)))
           \<and> fle (sharpe_of (last (sort_values sharpe_of sharpe_results))) (sharpe_of row))"
proof -
  let ?s = "sort_values sharpe_of sharpe_results"
  have nn: "\<And>x. x \<in> set sharpe_results \<Longrightarrow> \<not> isna (sharpe_of x)"
    using assms(2) by (simp add: list_all_iff)
  have ms: "mset ?s = mset sharpe_results"
    by (rule mset_sort_values)
  then have st: "set ?s = set sharpe_results"
    by (metis set_mset_mset)
  then have ne: "?s \<noteq> []"
    using assms(1) by auto
  have so: "sorted_wrt (\<lambda>x y. fle (sharpe_of y) (sharpe_of x)) ?s"
    using foldr_insert_desc [of sharpe_results sharpe_of] nn
    by (simp add: sort_values_no_nan [OF assms(2)])
  have "fle (sharpe_of row) (sharpe_of (hd ?s)) \<and> fle (sharpe_of (last ?s)) (sharpe_of row)"
    if "row \<in> set sharpe_results" for row
    using so that st nn by (intro sorted_desc_ends) auto
  moreover have "hd ?s \<in> set sharpe_results" "last ?s \<in> set sharpe_results"
    using ne st by (metis hd_in_set, metis last_in_set)
  ultimately show ?thesis
    using ms by blast
qed

lemma sample_sharpe_flat:
  "sharpe_of (t, result_row [Fin 0, Fin 0] (Fin (2 / 100))) = NInf"
  "sharpe_of (t, result_row [Fin 0, Fin 0] (Fin 0)) = NaN"
  using sharpe_ratios_Fin [of "[0, 0]" "2 / 100"] sharpe_ratios_Fin [of "[0, 0]" 0]
  by (simp_all add: sample_returns_stats sharpe_of_def result_row_def)

lemma sample_sharpe_rising: "\<exists>a. sharpe_of (t, result_row [Fin 1, Fin (1 / 2)] (Fin r)) = Fin a"
  using sharpe_values(3) [of "[1, 1 / 2]" r]
  by (simp add: sample_returns_stats sharpe_of_def result_row_def)

theorem sorted_results_best_and_worst_witness:
  "\<exists>res. calculate_sharpe_ratio sample_prices (Fin (2 / 100)) = Inr res
     \<and> res \<noteq> [] \<and> list_all (\<lambda>row. \<not> isna (sharpe_of row)) res
     \<and> mset (sort_values sharpe_of res) = mset res
     \<and> hd (sort_values sharpe_of res) \<in> set res
     \<and> last (sort_values sharpe_of res) \<in> set res
     \<and> list_all (\<lambda>row. fle (sharpe_of row) (sharpe_of (hd (sort_values sharpe_of res)))
                       \<and> fle (sharpe_of (last (sort_values sharpe_of res))) (sharpe_of row)) res"
proof -
  define flat where "flat = (''INTC'', result_row [Fin 0, Fin 0] (Fin (2 / 100)))"
  define rising where "rising = (''MSFT'', result_row [Fin 1, Fin (1 / 2)] (Fin (2 / 100)))"
  obtain a where a: "sharpe_of rising = Fin a"
    unfolding rising_def using sample_sharpe_rising by blast
  have f: "sharpe_of flat = NInf"
    unfolding flat_def by (rule sample_sharpe_flat)
  have h: "[flat, rising] \<noteq> []" "list_all (\<lambda>row. \<not> isna (sharpe_of row)) [flat, rising]"
    using a f by (simp_all add: isna_def)
  have r: "calculate_sharpe_ratio sample_prices (Fin (2 / 100)) = Inr [flat, rising]"
    unfolding flat_def rising_def by (rule sample_results)
  show ?thesis
    using sorted_results_best_and_worst [OF h] h r
    by (intro exI [of _ "[flat, rising]"]) (simp add: list_all_iff)
qed

text \<open>
  The claim as stated fails on a table with a NaN Sharpe ratio, whose row is placed last
  and compares with nothing. At a risk-free rate of 0 the flat price column of the sample
  frame has excess return 0 and volatility 0, so its Sharpe ratio is 0 / 0: it is reported
  as the worst performer with a ratio that is not less than or equal to the other one.
\<close>

theorem sorted_results_nan_counterexample:
  "\<exists>res. calculate_sharpe_ratio sample_prices (Fin 0) = Inr res
     \<and> res \<noteq> []
     \<and> map fst (sort_values sharpe_of res) = [''MSFT'', ''INTC'']
     \<and> sharpe_of (last (sort_values sharpe_of res)) = NaN
     \<and> \<not> fle (sharpe_of (last (sort_values sharpe_of res)))
              (sharpe_of (hd (sort_values sharpe_of res)))"
proof -
  define flat where "flat = (''INTC'', result_row [Fin 0, Fin 0] (Fin 0))"
  define rising where "rising = (''MSFT'', result_row [Fin 1, Fin (1 / 2)] (Fin 0))"
  obtain a where a: "sharpe_of rising = Fin a"
    unfolding rising_def using sample_sharpe_rising by blast
  have f: "sharpe_of flat = NaN"
    unfolding flat_def by (rule sample_sharpe_flat)
  have s: "sort_values sharpe_of [flat, rising] = [rising, flat]"
    using a f by (simp add: sort_values_def isna_def)
  have n: "fst flat = ''INTC''" "fst rising = ''MSFT''"
    by (simp_all add: flat_def rising_def)
  have r: "calculate_sharpe_ratio sample_prices (Fin 0) = Inr [flat, rising]"
    unfolding flat_def rising_def by (rule sample_results)
  show ?thesis
    using r s a f n by (intro exI [of _ "[flat, rising]"]) simp
qed

subsection \<open>Traces of the cells\<close>

lemma requests_append: "requests (es @ es') = requests es @ requests es'"
  by (induction es rule: requests.induct) simp_all

lemma writes_append: "writes (es @ es') = writes es @ writes es'"
  by (induction es rule: writes.induct) simp_all

lemma prints_only:
  assumes "list_all is_print es"
  shows "requests es = []" and "writes es = []"
  using assms by (induction es rule: requests.induct) simp_all

lemma prints_banner: "list_all is_print (banner title)"
  by (simp add: banner_def)

lemma prints_show_stock: "list_all is_print (concat (map show_stock rows))"
  by (induction rows) (simp_all add: show_stock_def split: prod.splits)

lemma step1_download_eval:
  "step1_download w
     = ([Print [Lit ''Downloading stock data...''],
         Download (History stocks (now w - timedelta_days (365 * 5)) (now w) False)],
        yf_history w stocks (now w - timedelta_days (365 * 5)) (now w))"
  by (simp add: step1_download_def download_history_def bind_def emit_def lift_def Let_def)

lemma get_risk_free_rate_eval:
  "get_risk_free_rate w
     = (case snd (fetch_rate w) of
          Inl e \<Rightarrow> ([Download (Period ''^IRX'' ''1d'' ''1d''), could_not_fetch e], Inr (Fin (2 / 100)))
        | Inr r \<Rightarrow> ([Download (Period ''^IRX'' ''1d'' ''1d'')], Inr r))"
  by (simp add: get_risk_free_rate_def fetch_rate_cases split: sum.splits option.splits)

lemma step2_rate_eval:
  "step2_rate w
     = (case snd (fetch_rate w) of
          Inl e \<Rightarrow> ([Download (Period ''^IRX'' ''1d'' ''1d''), could_not_fetch e,
                     using_rate (Fin (2 / 100))], Inr (Fin (2 / 100)))
        | Inr r \<Rightarrow>
            if isna r
            then ([Download (Period ''^IRX'' ''1d'' ''1d''), using_rate r,
                   Print [Lit ''Using default risk-free rate: 2.00%'']], Inr (Fin (2 / 100)))
            else ([Download (Period ''^IRX'' ''1d'' ''1d''), using_rate r], Inr r))"
  by (simp add: step2_rate_def get_risk_free_rate_eval bind_def emit_def ret_def isna_def
      split: sum.splits)

lemma step2_rate_trace:
  "\<exists>es rf. step2_rate w = (Download (Period ''^IRX'' ''1d'' ''1d'') # es, Inr rf)
     \<and> list_all is_print es"
  by (simp add: step2_rate_eval using_rate_def could_not_fetch_def split: sum.splits)

lemma step6_trace:
  "step6_best_worst sorted_rows
     = (if sorted_rows = []
        then ([], Inl (IndexError ''index 0 is out of bounds for axis 0 with size 0''))
        else (fst (step6_best_worst sorted_rows), Inr ()))"
  "requests (fst (step6_best_worst sorted_rows)) = []"
  "writes (fst (step6_best_worst sorted_rows))
     = (if sorted_rows = [] then []
        else [(''sharpe_ratio_analysis.csv'', round_results 4 sorted_rows)])"
  by (simp_all add: step6_best_worst_def raise_def Let_def)

lemma report_eval:
  "report df rf
     = (case calculate_sharpe_ratio df rf of
          Inl e \<Rightarrow> ([Print [Lit ''Calculating Sharpe ratios...'']], Inl e)
        | Inr res \<Rightarrow>
            (Print [Lit ''Calculating Sharpe ratios...'']
               # banner ''SHARPE RATIO ANALYSIS RESULTS''
               @ concat (map show_stock (sort_values sharpe_of res))
               @ banner ''SUMMARY TABLE''
               @ [Print_frame [''Annual Return (%)'', ''Volatility (%)'', ''Sharpe Ratio'']
                    (summary_df (sort_values sharpe_of res))]
               @ fst (step6_best_worst (sort_values sharpe_of res)),
             snd (step6_best_worst (sort_values sharpe_of res))))"
  by (simp add: report_def step3_calculate_def step4_display_def step5_summary_def
      bind_def emit_def lift_def Let_def split: sum.splits prod.splits)

lemma report_trace:
  "requests (fst (report df rf)) = []"
  "writes (fst (report df rf))
     = (case calculate_sharpe_ratio df rf of
          Inl e \<Rightarrow> []
        | Inr res \<Rightarrow>
            if res = [] then []
            else [(''sharpe_ratio_analysis.csv'', round_results 4 (sort_values sharpe_of res))])"
  "snd (report df rf) = Inr () \<longleftrightarrow> (\<exists>res. calculate_sharpe_ratio df rf = Inr res \<and> res \<noteq> [])"
proof -
  have e: "sort_values sharpe_of res = [] \<longleftrightarrow> res = []" for res :: results
    using mset_sort_values [of sharpe_of res] by (metis mset_zero_iff)
  show "requests (fst (report df rf)) = []"
    by (simp add: report_eval requests_append step6_trace(2)
        prints_only(1) [OF prints_banner] prints_only(1) [OF prints_show_stock]
        split: sum.splits)
  show "writes (fst (report df rf))
     = (case calculate_sharpe_ratio df rf of
          Inl e \<Rightarrow> []
        | Inr res \<Rightarrow>
            if res = [] then []
            else [(''sharpe_ratio_analysis.csv'', round_results 4 (sort_values sharpe_of res))])"
    by (simp add: report_eval writes_append step6_trace(3) e
        prints_only(2) [OF prints_banner] prints_only(2) [OF prints_show_stock]
        split: sum.splits)
  show "snd (report df rf) = Inr () \<longleftrightarrow> (\<exists>res. calculate_sharpe_ratio df rf = Inr res \<and> res \<noteq> [])"
    by (auto simp: report_eval step6_best_worst_def raise_def Let_def e split: sum.splits)
qed

lemma analysis_eval:
  "analysis w
     = (case yf_history w stocks (now w - timedelta_days (365 * 5)) (now w) of
          Inl e \<Rightarrow> (fst (step1_download w), Inl e)
        | Inr df \<Rightarrow>
            (fst (step1_download w) @ fst (step2_rate w)
               @ fst (report df (projr (snd (step2_rate w)))),
             snd (report df (projr (snd (step2_rate w))))))"
proof -
  obtain es rf where s2: "step2_rate w = (Download (Period ''^IRX'' ''1d'' ''1d'') # es, Inr rf)"
    using step2_rate_trace by blast
  show ?thesis
    by (simp add: analysis_def step1_download_eval s2 bind_def split: sum.splits prod.splits)
qed

lemma inline_cell_eval:
  "inline_cell w
     = (case yf_history w stocks (now w - timedelta_days (365 * 5)) (now w) of
          Inl e \<Rightarrow> ([Download (History stocks (now w - timedelta_days (365 * 5)) (now w) False)], Inl e)
        | Inr raw \<Rightarrow>
            (case getitem raw ''Adj Close'' of
               Inl e \<Rightarrow> ([Download (History stocks (now w - timedelta_days (365 * 5)) (now w) False)], Inl e)
             | Inr df \<Rightarrow>
                 (case inline_loop (daily_returns df) (Fin (3 / 100)) stocks of
                    Inl e \<Rightarrow> ([Download (History stocks (now w - timedelta_days (365 * 5)) (now w) False)], Inl e)
                  | Inr ratios \<Rightarrow>
                      ([Download (History stocks (now w - timedelta_days (365 * 5)) (now w) False),
                        Print_frame [''Sharpe Ratio'']
                          (map (\<lambda>(t, s). (t, [s])) (sort_values snd ratios))],
                       Inr ()))))"
  by (simp add: inline_cell_def download_history_def bind_def emit_def lift_def Let_def
      split: sum.splits)

lemma inline_cell_trace:
  "requests (fst (inline_cell w))
     = [History stocks (now w - timedelta_days (365 * 5)) (now w) False]"
  "writes (fst (inline_cell w)) = []"
  by (simp_all add: inline_cell_eval split: sum.splits)

lemma analysis_requests:
  "requests (fst (analysis w))
     = History stocks (now w - timedelta_days (365 * 5)) (now w) False
       # (case yf_history w stocks (now w - timedelta_days (365 * 5)) (now w) of
            Inl e \<Rightarrow> []
          | Inr df \<Rightarrow> [Period ''^IRX'' ''1d'' ''1d''])"
proof -
  obtain es rf where s2: "step2_rate w = (Download (Period ''^IRX'' ''1d'' ''1d'') # es, Inr rf)"
    and p: "list_all is_print es"
    using step2_rate_trace by blast
  show ?thesis
    by (simp add: analysis_eval step1_download_eval s2 requests_append report_trace(1)
        prints_only(1) [OF p] split: sum.splits)
qed

text \<open>
  Claim C4. In every world, the one query for price history that a run sends asks for
  the tickers MSFT, QQQ, INTC and SPY over the window that ends at the current time and
  starts 5 * 365 days before it; nothing of the world but its clock enters the query.
  The same holds for the stand-alone cell.
\<close>

theorem price_history_request_is_fixed:
  "filter is_history (requests (fst (analysis w)))
     = [History [''MSFT'', ''QQQ'', ''INTC'', ''SPY'']
          (now w - timedelta_days (5 * 365)) (now w) False]
   \<and> filter is_history (requests (fst (inline_cell w)))
     = [History [''MSFT'', ''QQQ'', ''INTC'', ''SPY'']
          (now w - timedelta_days (5 * 365)) (now w) False]
   \<and> timedelta_days (5 * 365) = 5 * 365 * 24 * 60 * 60 * 1000000"
  by (simp add: analysis_requests inline_cell_trace stocks_def timedelta_days_def
      split: sum.splits)

theorem price_history_request_is_fixed_witness:
  "filter is_history (requests (fst (analysis sample_world)))
     = [History [''MSFT'', ''QQQ'', ''INTC'', ''SPY''] 1542320000000000 1700000000000000 False]
   \<and> filter is_history (requests (fst (analysis offline_world)))
     = [History [''MSFT'', ''QQQ'', ''INTC'', ''SPY''] 1642320000000000 1800000000000000 False]"
  using price_history_request_is_fixed [of sample_world]
    price_history_request_is_fixed [of offline_world]
  by (simp add: sample_world_def offline_world_def)

text \<open>
  Claim C5, as amended. In every run each query is sent at most once and never again
  after a failure: the query for price history once, the query for the rate at most
  once. A failed rate query is surfaced only as the printed message: the run goes on as
  with a fetched rate of 0.02. A failed query for price history is not caught: its
  exception ends the run, after the one line printed before the query.
\<close>

theorem fetches_run_once_and_price_failure_raises:
  "(\<exists>rest. requests (fst (analysis w))
             = History stocks (now w - timedelta_days (365 * 5)) (now w) False # rest
          \<and> (rest = [] \<or> rest = [Period ''^IRX'' ''1d'' ''1d'']))
   \<and> requests (fst (inline_cell w))
       = [History stocks (now w - timedelta_days (365 * 5)) (now w) False]
   \<and> (yf_history w stocks (now w - timedelta_days (365 * 5)) (now w) = Inr df
        \<and> snd (fetch_rate w) = Inl e \<longrightarrow>
        analysis w
          = ([Print [Lit ''Downloading stock data...''],
              Download (History stocks (now w - timedelta_days (365 * 5)) (now w) False),
              Download (Period ''^IRX'' ''1d'' ''1d''),
              could_not_fetch e, using_rate (Fin (2 / 100))]
             @ fst (report df (Fin (2 / 100))),
             snd (report df (Fin (2 / 100)))))
   \<and> (yf_history w stocks (now w - timedelta_days (365 * 5)) (now w) = Inl e \<longrightarrow>
        analysis w
          = ([Print [Lit ''Downloading stock data...''],
              Download (History stocks (now w - timedelta_days (365 * 5)) (now w) False)],
             Inl e))"
proof (intro conjI impI)
  show "\<exists>rest. requests (fst (analysis w))
             = History stocks (now w - timedelta_days (365 * 5)) (now w) False # rest
          \<and> (rest = [] \<or> rest = [Period ''^IRX'' ''1d'' ''1d''])"
    by (simp add: analysis_requests split: sum.splits)
next
  show "requests (fst (inline_cell w))
       = [History stocks (now w - timedelta_days (365 * 5)) (now w) False]"
    by (rule inline_cell_trace(1))
next
  assume "yf_history w stocks (now w - timedelta_days (365 * 5)) (now w) = Inr df
        \<and> snd (fetch_rate w) = Inl e"
  then show "analysis w
          = ([Print [Lit ''Downloading stock data...''],
              Download (History stocks (now w - timedelta_days (365 * 5)) (now w) False),
              Download (Period ''^IRX'' ''1d'' ''1d''),
              could_not_fetch e, using_rate (Fin (2 / 100))]
             @ fst (report df (Fin (2 / 100))),
             snd (report df (Fin (2 / 100))))"
    by (simp add: analysis_eval step1_download_eval step2_rate_eval)
next
  assume "yf_history w stocks (now w - timedelta_days (365 * 5)) (now w) = Inl e"
  then show "analysis w
          = ([Print [Lit ''Downloading stock data...''],
              Download (History stocks (now w - timedelta_days (365 * 5)) (now w) False)],
             Inl e)"
    by (simp add: analysis_eval step1_download_eval)
qed

lemma sample_report_finishes: "snd (report sample_prices rf) = Inr ()"
  by (simp add: report_trace(3) sample_results)

theorem fetches_run_once_and_price_failure_raises_witness:
  "yf_history no_rate_world stocks (now no_rate_world - timedelta_days (365 * 5)) (now no_rate_world)
     = Inr sample_prices
   \<and> snd (fetch_rate no_rate_world) = Inl (ProviderError ''connection refused'')
   \<and> requests (fst (analysis no_rate_world))
       = [History stocks (now no_rate_world - timedelta_days (365 * 5)) (now no_rate_world) False,
          Period ''^IRX'' ''1d'' ''1d'']
   \<and> snd (analysis no_rate_world) = Inr ()
   \<and> yf_history offline_world stocks (now offline_world - timedelta_days (365 * 5)) (now offline_world)
       = Inl (ProviderError ''connection refused'')
   \<and> requests (fst (analysis offline_world))
       = [History stocks (now offline_world - timedelta_days (365 * 5)) (now offline_world) False]"
proof -
  have a: "yf_history no_rate_world stocks (now no_rate_world - timedelta_days (365 * 5)) (now no_rate_world)
     = Inr sample_prices \<and> snd (fetch_rate no_rate_world) = Inl (ProviderError ''connection refused'')"
    by (simp add: fetch_rate_no_rate_world) (simp add: no_rate_world_def)
  have b: "yf_history offline_world stocks (now offline_world - timedelta_days (365 * 5)) (now offline_world)
       = Inl (ProviderError ''connection refused'')"
    by (simp add: offline_world_def)
  note t1 = fetches_run_once_and_price_failure_raises
              [of no_rate_world sample_prices "ProviderError ''connection refused''"]
  note t2 = fetches_run_once_and_price_failure_raises
              [of offline_world sample_prices "ProviderError ''connection refused''"]
  have c: "analysis no_rate_world
          = ([Print [Lit ''Downloading stock data...''],
              Download (History stocks (now no_rate_world - timedelta_days (365 * 5)) (now no_rate_world) False),
              Download (Period ''^IRX'' ''1d'' ''1d''),
              could_not_fetch (ProviderError ''connection refused''), using_rate (Fin (2 / 100))]
             @ fst (report sample_prices (Fin (2 / 100))),
             snd (report sample_prices (Fin (2 / 100))))"
    using t1 a by blast
  have d: "analysis offline_world
          = ([Print [Lit ''Downloading stock data...''],
              Download (History stocks (now offline_world - timedelta_days (365 * 5)) (now offline_world) False)],
             Inl (ProviderError ''connection refused''))"
    using t2 b by blast
  have "requests (fst (analysis no_rate_world))
       = [History stocks (now no_rate_world - timedelta_days (365 * 5)) (now no_rate_world) False,
          Period ''^IRX'' ''1d'' ''1d'']"
    unfolding c by (simp add: requests_append report_trace(1) could_not_fetch_def using_rate_def)
  moreover have "snd (analysis no_rate_world) = Inr ()"
    unfolding c by (simp add: sample_report_finishes)
  moreover have "requests (fst (analysis offline_world))
       = [History stocks (now offline_world - timedelta_days (365 * 5)) (now offline_world) False]"
    unfolding d by simp
  ultimately show ?thesis
    using a b by blast
qed

text \<open>
  The claim as stated fails for the query for price history: where the provider raises,
  the run ends with that exception and prints nothing about the failure.
\<close>

theorem failed_price_fetch_raises_counterexample:
  "yf_history offline_world stocks (now offline_world - timedelta_days (365 * 5)) (now offline_world)
     = Inl (ProviderError ''connection refused'')
   \<and> analysis offline_world
       = ([Print [Lit ''Downloading stock data...''],
           Download (History stocks 1642320000000000 1800000000000000 False)],
          Inl (ProviderError ''connection refused''))"
  by (simp add: analysis_eval step1_download_eval offline_world_def timedelta_days_def)

subsection \<open>Rounding and the written table\<close>

lemma rint_close: "\<bar>of_int (rint y) - y\<bar> \<le> (1 / 2 :: real)"
proof -
  have "of_int \<lfloor>y\<rfloor> \<le> y" and "y < of_int \<lfloor>y\<rfloor> + 1"
    by linarith+
  then show ?thesis
    by (auto simp: rint_def Let_def)
qed

lemma fround_four_places:
  "\<exists>v k. fround 4 (Fin x) = Fin v \<and> \<bar>v - x\<bar> \<le> 1 / 10000 \<and> \<bar>v * 10 ^ 4 - of_int k\<bar> \<le> 1 / 1000"
proof -
  let ?k = "rint (x * 10 ^ 4)"
  have c: "\<bar>of_int ?k - x * 10 ^ 4\<bar> \<le> (1 / 2 :: real)"
    by (rule rint_close)
  have "of_int ?k / 10 ^ 4 - x = (of_int ?k - x * 10 ^ 4) / 10 ^ 4"
    by (simp add: field_simps)
  then have "\<bar>of_int ?k / 10 ^ 4 - x\<bar> = \<bar>of_int ?k - x * 10 ^ 4\<bar> / 10 ^ 4"
    by (simp only: abs_divide) simp
  also have "\<dots> \<le> (1 / 2) / 10 ^ 4"
    using c by (intro divide_right_mono) simp_all
  finally have "\<bar>of_int ?k / 10 ^ 4 - x\<bar> \<le> 1 / 10000"
    by simp
  moreover have "\<bar>of_int ?k / 10 ^ 4 * 10 ^ 4 - of_int ?k\<bar> \<le> (1 / 1000 :: real)"
    by simp
  ultimately show ?thesis
    by (intro exI [of _ "of_int ?k / 10 ^ 4"] exI [of _ ?k]) simp
qed

lemma round_results_entries:
  "round_results 4 rows
     = map (\<lambda>(t, m). (t, \<lparr>Annual_Return = fround 4 (Annual_Return m),
                            Annual_Volatility = fround 4 (Annual_Volatility m),
                            Excess_Return = fround 4 (Excess_Return m),
                            Sharpe_Ratio = fround 4 (Sharpe_Ratio m),
                            Annual_Return_Pct = fround 4 (Annual_Return_Pct m),
                            Annual_Volatility_Pct = fround 4 (Annual_Volatility_Pct m),
                            Excess_Return_Pct = fround 4 (Excess_Return_Pct m)\<rparr>)) rows"
  by (simp add: round_results_def round_metrics_def)

lemma sort_values_descending:
  "sorted_wrt (\<lambda>a b. isna (key b) \<or> fle (key b) (key a)) (sort_values key rows)"
proof -
  let ?front = "foldr (insert_desc key) (filter (\<lambda>r. \<not> isna (key r)) rows) []"
  have "sorted_wrt (\<lambda>x y. fle (key y) (key x)) ?front"
    by (intro foldr_insert_desc [THEN conjunct1]) simp
  then have "sorted_wrt (\<lambda>a b. isna (key b) \<or> fle (key b) (key a)) ?front"
    by (rule sorted_wrt_mono_rel [rotated]) simp
  moreover have "sorted_wrt (\<lambda>a b. isna (key b) \<or> fle (key b) (key a))
                   (filter (\<lambda>r. isna (key r)) rows)"
    by (induction rows) (auto)
  ultimately show ?thesis
    by (auto simp: sort_values_def sorted_wrt_append)
qed

text \<open>
  Claim C6. The only file a run writes is \<^verbatim>\<open>sharpe_ratio_analysis.csv\<close>, at most once:
  a run that ends with an exception writes nothing, a run that completes writes that one
  file, and the stand-alone cell writes nothing. The file holds the rows that
  \<open>calculate_sharpe_ratio\<close> returned, in descending order of their Sharpe ratio with the
  rows whose ratio is NaN last, every entry rounded to 4 decimal places: NaN and the
  infinities are written as they are, and an entry of magnitude up to a million is
  written as a value at most 1/10000 away from it whose multiple by 10000 is at most
  1/1000 away from an integer (the margins leave room for the rounding of float
  arithmetic itself).
\<close>

theorem only_write_is_the_csv_export:
  "writes (fst (inline_cell w)) = []
   \<and> (snd (analysis w) \<noteq> Inr () \<longrightarrow> writes (fst (analysis w)) = [])
   \<and> (snd (analysis w) = Inr () \<longrightarrow>
        (\<exists>df rf res sorted_rows.
           yf_history w stocks (now w - timedelta_days (365 * 5)) (now w) = Inr df
           \<and> snd (step2_rate w) = Inr rf
           \<and> calculate_sharpe_ratio df rf = Inr res
           \<and> mset sorted_rows = mset res
           \<and> sorted_wrt (\<lambda>a b. isna (sharpe_of b) \<or> fle (sharpe_of b) (sharpe_of a)) sorted_rows
           \<and> writes (fst (analysis w))
               = [(''sharpe_ratio_analysis.csv'',
                   map (\<lambda>(t, m). (t, \<lparr>Annual_Return = fround 4 (Annual_Return m),
                                          Annual_Volatility = fround 4 (Annual_Volatility m),
                                          Excess_Return = fround 4 (Excess_Return m),
                                          Sharpe_Ratio = fround 4 (Sharpe_Ratio m),
                                          Annual_Return_Pct = fround 4 (Annual_Return_Pct m),
                                          Annual_Volatility_Pct = fround 4 (Annual_Volatility_Pct m),
                                          Excess_Return_Pct = fround 4 (Excess_Return_Pct m)\<rparr>))
                     sorted_rows)]))
   \<and> fround 4 NaN = NaN \<and> fround 4 PInf = PInf \<and> fround 4 NInf = NInf
   \<and> (\<bar>x\<bar> \<le> 10 ^ 6 \<longrightarrow>
        (\<exists>v k. fround 4 (Fin x) = Fin v \<and> \<bar>v - x\<bar> \<le> 1 / 10000
               \<and> \<bar>v * 10 ^ 4 - of_int k\<bar> \<le> 1 / 1000))"
proof -
  obtain es rf where s2: "step2_rate w = (Download (Period ''^IRX'' ''1d'' ''1d'') # es, Inr rf)"
    and p: "list_all is_print es"
    using step2_rate_trace by blast
  have w1: "writes (fst (step1_download w)) = []" "writes (fst (step2_rate w)) = []"
    by (simp_all add: step1_download_eval s2 prints_only(2) [OF p])
  have rounding: "fround 4 NaN = NaN \<and> fround 4 PInf = PInf \<and> fround 4 NInf = NInf
   \<and> (\<bar>x\<bar> \<le> 10 ^ 6 \<longrightarrow>
        (\<exists>v k. fround 4 (Fin x) = Fin v \<and> \<bar>v - x\<bar> \<le> 1 / 10000
               \<and> \<bar>v * 10 ^ 4 - of_int k\<bar> \<le> 1 / 1000))"
    using fround_four_places [of x] by simp
  have quiet: "writes (fst (inline_cell w)) = []"
    by (rule inline_cell_trace(2))
  show ?thesis
  proof (cases "yf_history w stocks (now w - timedelta_days (365 * 5)) (now w)")
    case (Inl e)
    then have "snd (analysis w) \<noteq> Inr ()" "writes (fst (analysis w)) = []"
      by (simp_all add: analysis_eval w1)
    then show ?thesis
      using rounding quiet by blast
  next
    case (Inr df)
    have a: "analysis w
               = (fst (step1_download w) @ fst (step2_rate w) @ fst (report df rf),
                  snd (report df rf))"
      using Inr by (simp add: analysis_eval s2)
    have wr: "writes (fst (analysis w)) = writes (fst (report df rf))"
      unfolding a by (simp add: writes_append w1)
    have fin: "snd (analysis w) = Inr () \<longleftrightarrow>
                (\<exists>res. calculate_sharpe_ratio df rf = Inr res \<and> res \<noteq> [])"
      unfolding a by (simp add: report_trace(3))
    have none: "writes (fst (analysis w)) = []" if "snd (analysis w) \<noteq> Inr ()"
      using that fin wr by (auto simp: report_trace(2) split: sum.splits)
    have one: "\<exists>df rf res sorted_rows.
           yf_history w stocks (now w - timedelta_days (365 * 5)) (now w) = Inr df
           \<and> snd (step2_rate w) = Inr rf
           \<and> calculate_sharpe_ratio df rf = Inr res
           \<and> mset sorted_rows = mset res
           \<and> sorted_wrt (\<lambda>a b. isna (sharpe_of b) \<or> fle (sharpe_of b) (sharpe_of a)) sorted_rows
           \<and> writes (fst (analysis w))
               = [(''sharpe_ratio_analysis.csv'',
                   map (\<lambda>(t, m). (t, \<lparr>Annual_Return = fround 4 (Annual_Return m),
                                          Annual_Volatility = fround 4 (Annual_Volatility m),
                                          Excess_Return = fround 4 (Excess_Return m),
                                          Sharpe_Ratio = fround 4 (Sharpe_Ratio m),
                                          Annual_Return_Pct = fround 4 (Annual_Return_Pct m),
                                          Annual_Volatility_Pct = fround 4 (Annual_Volatility_Pct m),
                                          Excess_Return_Pct = fround 4 (Excess_Return_Pct m)\<rparr>))
                     sorted_rows)]"
      if finished: "snd (analysis w) = Inr ()"
    proof -
      obtain res where res: "calculate_sharpe_ratio df rf = Inr res" "res \<noteq> []"
        using finished fin by blast
      let ?s = "sort_values sharpe_of res"
      have "writes (fst (analysis w)) = [(''sharpe_ratio_analysis.csv'', round_results 4 ?s)]"
        using wr res by (simp add: report_trace(2))
      then have "writes (fst (analysis w))
               = [(''sharpe_ratio_analysis.csv'',
                   map (\<lambda>(t, m). (t, \<lparr>Annual_Return = fround 4 (Annual_Return m),
                                          Annual_Volatility = fround 4 (Annual_Volatility m),
                                          Excess_Return = fround 4 (Excess_Return m),
                                          Sharpe_Ratio = fround 4 (Sharpe_Ratio m),
                                          Annual_Return_Pct = fround 4 (Annual_Return_Pct m),
                                          Annual_Volatility_Pct = fround 4 (Annual_Volatility_Pct m),
                                          Excess_Return_Pct = fround 4 (Excess_Return_Pct m)\<rparr>))
                     ?s)]"
        by (simp only: round_results_entries)
      moreover have "mset ?s = mset res"
        by (rule mset_sort_values)
      moreover have "sorted_wrt (\<lambda>a b. isna (sharpe_of b) \<or> fle (sharpe_of b) (sharpe_of a)) ?s"
        by (rule sort_values_descending)
      moreover have "snd (step2_rate w) = Inr rf"
        by (simp add: s2)
      ultimately show ?thesis
        using Inr res(1) by blast
    qed
    show ?thesis
      using none one rounding quiet by blast
  qed
qed
lemma fround_samples:
  "fround 4 (Fin (- (423456 / 10000000))) = Fin (- (423 / 10000))"
  "fround 4 (Fin (- (423456 / 100000))) = Fin (- (42346 / 10000))"
  "fround 4 (Fin 0) = Fin 0"
  by (simp_all add: rint_def Let_def)

lemma flat_results:
  "calculate_sharpe_ratio flat_prices rf = Inr [(''INTC'', result_row [Fin 0, Fin 0] rf)]"
  by (simp add: calculate_sharpe_ratio_def getitem_def flat_prices_def
      daily_returns_def dropna_def kept_rows_def pct_change_def pct_change_col_def
      ffill_def shift1_def row_has_na_def isna_def fsub_def upt_rec)

lemma flat_row:
  "result_row [Fin 0, Fin 0] (Fin (423456 / 10000000))
     = \<lparr>Annual_Return = Fin 0, Annual_Volatility = Fin 0,
        Excess_Return = Fin (- (423456 / 10000000)), Sharpe_Ratio = NInf,
        Annual_Return_Pct = Fin 0, Annual_Volatility_Pct = Fin 0,
        Excess_Return_Pct = Fin (- (423456 / 100000))\<rparr>"
  using annual_returns_Fin [of "[0, 0]"] annual_volatility_Fin [of "[0, 0]"]
  by (simp add: result_row_def sharpe_ratios_def excess_returns_def sample_returns_stats fsub_def)

lemma step2_rate_decimal_world:
  "step2_rate decimal_world
     = ([Download (Period ''^IRX'' ''1d'' ''1d''), using_rate (Fin (423456 / 10000000))],
        Inr (Fin (423456 / 10000000)))"
  by (simp add: step2_rate_eval fetch_rate_cases decimal_world_def isna_def)
theorem only_write_is_the_csv_export_witness:
  "snd (analysis decimal_world) = Inr ()
   \<and> writes (fst (analysis decimal_world))
       = [(''sharpe_ratio_analysis.csv'',
           [(''INTC'', \<lparr>Annual_Return = Fin 0, Annual_Volatility = Fin 0,
                         Excess_Return = Fin (- (423 / 10000)), Sharpe_Ratio = NInf,
                         Annual_Return_Pct = Fin 0, Annual_Volatility_Pct = Fin 0,
                         Excess_Return_Pct = Fin (- (42346 / 10000))\<rparr>)])]
   \<and> snd (analysis offline_world) \<noteq> Inr ()
   \<and> writes (fst (analysis offline_world)) = []
   \<and> writes (fst (inline_cell decimal_world)) = []
   \<and> \<bar>- (423456 / 10000000) :: real\<bar> \<le> 10 ^ 6
   \<and> (\<exists>v k. fround 4 (Fin (- (423456 / 10000000))) = Fin v
          \<and> \<bar>v - (- (423456 / 10000000))\<bar> \<le> 1 / 10000
          \<and> \<bar>v * 10 ^ 4 - of_int k\<bar> \<le> 1 / 1000)"
proof -
  define row where "row = (''INTC'', result_row [Fin 0, Fin 0] (Fin (423456 / 10000000)))"
  have h: "yf_history decimal_world stocks (now decimal_world - timedelta_days (365 * 5))
             (now decimal_world) = Inr flat_prices"
    by (simp add: decimal_world_def)
  have r: "snd (step2_rate decimal_world) = Inr (Fin (423456 / 10000000))"
    by (simp add: step2_rate_decimal_world)
  have c: "calculate_sharpe_ratio flat_prices (Fin (423456 / 10000000)) = Inr [row]"
    unfolding row_def by (rule flat_results)
  have a: "snd (analysis decimal_world) = Inr ()"
    unfolding analysis_eval h by (simp add: step2_rate_decimal_world report_trace(3) flat_results)
  have b: "snd (analysis offline_world) \<noteq> Inr ()"
    by (simp add: analysis_eval offline_world_def)
  have m: "\<bar>- (423456 / 10000000) :: real\<bar> \<le> 10 ^ 6"
    by simp
  note t1 = only_write_is_the_csv_export [of decimal_world "- (423456 / 10000000)"]
  note t2 = only_write_is_the_csv_export [of offline_world 0]
  obtain sorted_rows where s: "mset sorted_rows = mset [row]"
    and w: "writes (fst (analysis decimal_world))
              = [(''sharpe_ratio_analysis.csv'',
                  map (\<lambda>(t, m). (t, \<lparr>Annual_Return = fround 4 (Annual_Return m),
                                         Annual_Volatility = fround 4 (Annual_Volatility m),
                                         Excess_Return = fround 4 (Excess_Return m),
                                         Sharpe_Ratio = fround 4 (Sharpe_Ratio m),
                                         Annual_Return_Pct = fround 4 (Annual_Return_Pct m),
                                         Annual_Volatility_Pct = fround 4 (Annual_Volatility_Pct m),
                                         Excess_Return_Pct = fround 4 (Excess_Return_Pct m)\<rparr>))
                    sorted_rows)]"
    using t1 a h r c by auto
  have "sorted_rows = [row]"
    using s by (metis mset.simps(1) mset.simps(2) mset_single_iff_right)
  then have "writes (fst (analysis decimal_world))
       = [(''sharpe_ratio_analysis.csv'',
           [(''INTC'', \<lparr>Annual_Return = Fin 0, Annual_Volatility = Fin 0,
                         Excess_Return = Fin (- (423 / 10000)), Sharpe_Ratio = NInf,
                         Annual_Return_Pct = Fin 0, Annual_Volatility_Pct = Fin 0,
                         Excess_Return_Pct = Fin (- (42346 / 10000))\<rparr>)])]"
    unfolding w row_def
    by (simp only: list.map prod.case flat_row metrics.select_convs fround_samples fround.simps(3))
  moreover have "writes (fst (analysis offline_world)) = []"
    using t2 b by blast
  moreover have "writes (fst (inline_cell decimal_world)) = []"
    using t1 by blast
  moreover have "\<exists>v k. fround 4 (Fin (- (423456 / 10000000))) = Fin v
          \<and> \<bar>v - (- (423456 / 10000000))\<bar> \<le> 1 / 10000
          \<and> \<bar>v * 10 ^ 4 - of_int k\<bar> \<le> 1 / 1000"
    using t1 m by blast
  ultimately show ?thesis
    using a b m by blast
qed

end
